theory Spec2Isabelle
  imports Complex_Main "HOL-Library.Word" "HOL-Library.AList" "HOL-Library.Sublist"
begin

section \<open>Webhook signatures (WebhookManager)\<close>

text \<open>
  A Node \<open>Buffer\<close> is a sequence of bytes. A JavaScript string is a sequence of UTF-16 code
  units; what \<open>verifySignature\<close> does with a string depends on the code units (the
  hexadecimal decoder reads each of them, the hash reads their UTF-8 encoding), so the
  payload, the signature and the secret are kept as such sequences. \<open>ascii\<close> writes a
  string of ASCII characters as a JavaScript string.
\<close>

type_synonym byte = "8 word"
type_synonym buffer = "byte list"
type_synonym code_unit = "16 word"
type_synonym js_string = "code_unit list"

definition ascii :: "string \<Rightarrow> js_string" where
  "ascii s = map (\<lambda>c. word_of_nat (of_char c)) s"

text \<open>
  The digits that \<open>digest('hex')\<close> and \<open>toString('hex')\<close> emit: \<open>0\<close> to \<open>9\<close> (code units
  48 to 57) and \<open>a\<close> to \<open>f\<close> (97 to 102).
\<close>

definition hex_char :: "nat \<Rightarrow> code_unit" where
  "hex_char n = (let d = n mod 16 in word_of_nat (if d < 10 then 48 + d else 87 + d))"

text \<open>
  The value of one code unit as Node's hexadecimal decoder reads it. The decoder looks
  only at the low byte of the code unit; on that byte both letter cases are digits and
  everything else is not. So U+0164, whose low byte is that of \<open>d\<close>, is read as the digit
  \<open>d\<close>.
\<close>

definition unhex :: "code_unit \<Rightarrow> nat option" where
  "unhex u =
     (let n = unat u mod 256 in
      if 48 \<le> n \<and> n \<le> 57 then Some (n - 48)
      else if 97 \<le> n \<and> n \<le> 102 then Some (n - 87)
      else if 65 \<le> n \<and> n \<le> 70 then Some (n - 55)
      else None)"

text \<open>A code unit that is a hexadecimal digit: \<open>0\<close> to \<open>9\<close>, \<open>a\<close> to \<open>f\<close> or \<open>A\<close> to \<open>F\<close>.\<close>

definition is_hex_unit :: "code_unit \<Rightarrow> bool" where
  "is_hex_unit u =
     (let n = unat u in
      (48 \<le> n \<and> n \<le> 57) \<or> (97 \<le> n \<and> n \<le> 102) \<or> (65 \<le> n \<and> n \<le> 70))"

text \<open>\<open>buf.toString('hex')\<close> and \<open>hmac.digest('hex')\<close>: two lower-case digits per byte.\<close>

fun to_hex :: "buffer \<Rightarrow> js_string" where
  "to_hex [] = []"
| "to_hex (b # bs) = hex_char (unat b div 16) # hex_char (unat b mod 16) # to_hex bs"

text \<open>
  \<open>Buffer.from(s, 'hex')\<close>. Node decodes pairs of code units from the left and stops,
  without raising, at the first pair that holds a unit it does not read as a digit; a
  trailing single unit is dropped.
\<close>

definition byte_of_digits :: "nat \<Rightarrow> nat \<Rightarrow> byte" where
  "byte_of_digits hi lo = word_of_nat (16 * hi + lo)"

fun from_hex :: "js_string \<Rightarrow> buffer" where
  "from_hex (a # b # rest) =
     (case unhex a of
        None \<Rightarrow> []
      | Some x \<Rightarrow>
          (case unhex b of
             None \<Rightarrow> []
           | Some y \<Rightarrow> byte_of_digits x y # from_hex rest))"
| "from_hex [a] = []"
| "from_hex [] = []"

text \<open>A string that is hexadecimal throughout: hexadecimal digits only, an even number of them.\<close>

definition well_formed_hex :: "js_string \<Rightarrow> bool" where
  "well_formed_hex s = (even (length s) \<and> list_all is_hex_unit s)"

text \<open>
  The bytes that \<open>createHmac(alg, secret)\<close> and \<open>update(payload)\<close> take from a string: its
  UTF-8 encoding. A high surrogate followed by a low one is one code point; a surrogate
  without its partner is encoded as U+FFFD.
\<close>

definition is_surrogate :: "code_unit \<Rightarrow> bool" where
  "is_surrogate u = (0xD800 \<le> unat u \<and> unat u < 0xE000)"

definition is_high_surrogate :: "code_unit \<Rightarrow> bool" where
  "is_high_surrogate u = (0xD800 \<le> unat u \<and> unat u < 0xDC00)"

definition is_low_surrogate :: "code_unit \<Rightarrow> bool" where
  "is_low_surrogate u = (0xDC00 \<le> unat u \<and> unat u < 0xE000)"

fun code_points :: "js_string \<Rightarrow> nat list" where
  "code_points (u # v # rest) =
     (if is_high_surrogate u \<and> is_low_surrogate v
      then (0x10000 + (unat u - 0xD800) * 0x400 + (unat v - 0xDC00)) # code_points rest
      else (if is_surrogate u then 0xFFFD else unat u) # code_points (v # rest))"
| "code_points [u] = [if is_surrogate u then 0xFFFD else unat u]"
| "code_points [] = []"

definition utf8_of :: "nat \<Rightarrow> buffer" where
  "utf8_of cp =
     (if cp < 0x80 then [word_of_nat cp]
      else if cp < 0x800 then [word_of_nat (0xC0 + cp div 0x40), word_of_nat (0x80 + cp mod 0x40)]
      else if cp < 0x10000 then
        [word_of_nat (0xE0 + cp div 0x1000), word_of_nat (0x80 + cp div 0x40 mod 0x40),
         word_of_nat (0x80 + cp mod 0x40)]
      else
        [word_of_nat (0xF0 + cp div 0x40000), word_of_nat (0x80 + cp div 0x1000 mod 0x40),
         word_of_nat (0x80 + cp div 0x40 mod 0x40), word_of_nat (0x80 + cp mod 0x40)])"

definition utf8 :: "js_string \<Rightarrow> buffer" where
  "utf8 s = concat (map utf8_of (code_points s))"

datatype js_error = RangeError | TypeError

text \<open>
  \<open>crypto.timingSafeEqual(a, b)\<close> raises a \<open>RangeError\<close> when the two buffers differ in
  length and otherwise answers whether they hold the same bytes.
\<close>

definition timingSafeEqual :: "buffer \<Rightarrow> buffer \<Rightarrow> js_error + bool" where
  "timingSafeEqual a b = (if length a \<noteq> length b then Inl RangeError else Inr (a = b))"

text \<open>
  \<open>WebhookManager.verifySignature\<close>. The keyed hash belongs to Node's crypto library; it
  is the parameter \<open>hmac\<close>, a function of the bytes of the key and of the message, and
  \<open>createHmac('sha256', secret).update(payload).digest()\<close> applies it to the UTF-8
  encodings of the secret and of the payload. The \<open>try\<close> block is the \<open>case\<close> on the
  result of \<open>timingSafeEqual\<close>: a raised error is answered with \<open>False\<close>.
\<close>

definition verifySignature ::
    "(buffer \<Rightarrow> buffer \<Rightarrow> buffer) \<Rightarrow> js_string \<Rightarrow> js_string \<Rightarrow> js_string \<Rightarrow> bool" where
  "verifySignature hmac payload signature secret =
     (let expectedSignature = to_hex (hmac (utf8 secret) (utf8 payload));
          expectedBuffer = from_hex expectedSignature;
          signatureBuffer = from_hex signature
      in if length expectedBuffer \<noteq> length signatureBuffer then False
         else (case timingSafeEqual expectedBuffer signatureBuffer of
                 Inl err \<Rightarrow> False
               | Inr same \<Rightarrow> same))"

text \<open>The signature a sender computes: the hex rendering of the keyed hash.\<close>

definition sign :: "(buffer \<Rightarrow> buffer \<Rightarrow> buffer) \<Rightarrow> js_string \<Rightarrow> js_string \<Rightarrow> js_string" where
  "sign hmac payload secret = to_hex (hmac (utf8 secret) (utf8 payload))"

text \<open>
  A keyed digest function used where a theorem is instantiated at concrete strings: the
  bytes of the key and of the message, filled up to 32 bytes.
\<close>

definition example_hmac :: "buffer \<Rightarrow> buffer \<Rightarrow> buffer" where
  "example_hmac key message = take 32 (key @ message @ replicate 32 0xAB)"

section \<open>The HTTP service\<close>

text \<open>
  The Express application with its two modes. A handler is a function of the
  configuration, of what the request takes from outside the process, of the request and
  of the state; it returns the response sent, the state left behind and the backend calls
  made, in order. \<open>res.json(v)\<close> alone sends status 200; \<open>await backendPost(...)\<close> is
  one application of the backend function, and a \<open>try\<close>/\<open>catch\<close> around it is the case
  distinction on its result.
\<close>

subsection \<open>JSON values\<close>

text \<open>
  What \<open>res.json\<close> sends and what the backend answers (\<open>r.data\<close>, of type \<open>any\<close>).
  An object is the list of its properties; a property that is \<open>undefined\<close> is left out,
  as \<open>JSON.stringify\<close> leaves it out. Numbers are only passed through and tested
  against zero.
\<close>

datatype json =
    JNull
  | JBool bool
  | JNumber rat
  | JString string
  | JArray "json list"
  | JObject "(string \<times> json) list"

text \<open>JavaScript truthiness, as \<open>if (v)\<close> and \<open>v ? a : b\<close> test it.\<close>

fun truthy :: "json \<Rightarrow> bool" where
  "truthy JNull = False"
| "truthy (JBool b) = b"
| "truthy (JNumber n) = (n \<noteq> 0)"
| "truthy (JString s) = (s \<noteq> [])"
| "truthy (JArray xs) = True"
| "truthy (JObject kvs) = True"

text \<open>\<open>d?.name\<close>: the property of an object, \<open>None\<close> (undefined) on anything else.\<close>

fun get_prop :: "json \<Rightarrow> string \<Rightarrow> json option" where
  "get_prop (JObject kvs) name = map_of kvs name"
| "get_prop d name = None"

definition em_dash :: string where
  "em_dash = [CHR 0xE2, CHR 0x80, CHR 0x94]"

subsection \<open>JavaScript values\<close>

text \<open>
  What \<open>express.json()\<close> hands to a handler in \<open>req.body\<close>: the values that \<open>JSON.parse\<close>
  builds. They are the JSON values, except that a number is an IEEE double: a finite one
  (it has a rational value) or, for a literal too large for a double such as \<open>1e400\<close>,
  an infinity. The handlers cast the properties of the body to the types they expect
  without a test, so a property can hold any such value.
\<close>

datatype js_number = Finite rat | PosInfinity | NegInfinity

datatype js_value =
    VNull
  | VBool bool
  | VNumber js_number
  | VString string
  | VArray "js_value list"
  | VObject "(string \<times> js_value) list"

text \<open>
  \<open>JSON.stringify\<close>, as \<open>res.json\<close> applies it: a number that is not finite is written
  \<open>null\<close>; every other value is written as it is.
\<close>

fun number_json :: "js_number \<Rightarrow> json" where
  "number_json (Finite r) = JNumber r"
| "number_json PosInfinity = JNull"
| "number_json NegInfinity = JNull"

primrec stringify :: "js_value \<Rightarrow> json" where
  "stringify VNull = JNull"
| "stringify (VBool b) = JBool b"
| "stringify (VNumber n) = number_json n"
| "stringify (VString s) = JString s"
| "stringify (VArray xs) = JArray (map stringify xs)"
| "stringify (VObject kvs) = JObject (map (map_prod id stringify) kvs)"

fun js_truthy :: "js_value \<Rightarrow> bool" where
  "js_truthy VNull = False"
| "js_truthy (VBool b) = b"
| "js_truthy (VNumber n) = (n \<noteq> Finite 0)"
| "js_truthy (VString s) = (s \<noteq> [])"
| "js_truthy (VArray xs) = True"
| "js_truthy (VObject kvs) = True"

text \<open>\<open>a ?? b\<close> on a property that may be absent (\<open>None\<close>) or \<open>null\<close>.\<close>

definition coalesce :: "js_value option \<Rightarrow> js_value \<Rightarrow> js_value" where
  "coalesce v d = (case v of None \<Rightarrow> d | Some x \<Rightarrow> if x = VNull then d else x)"

text \<open>
  \<open>String.prototype.toLowerCase\<close>. On a string of ASCII characters it replaces \<open>A\<close> to
  \<open>Z\<close> by \<open>a\<close> to \<open>z\<close> and keeps every other character; on any other string it is the
  case mapping of the Unicode tables of the JavaScript engine, the parameter
  \<open>unicode_lower\<close>.
\<close>

definition is_ascii :: "char \<Rightarrow> bool" where
  "is_ascii c = ((of_char c :: nat) < 128)"

definition ascii_lower :: "char \<Rightarrow> char" where
  "ascii_lower c = (let n = (of_char c :: nat) in if 65 \<le> n \<and> n \<le> 90 then char_of (n + 32) else c)"

definition toLowerCase :: "(string \<Rightarrow> string) \<Rightarrow> string \<Rightarrow> string" where
  "toLowerCase unicode_lower s = (if list_all is_ascii s then map ascii_lower s else unicode_lower s)"

text \<open>
  \<open>v.toLowerCase()\<close> on a value that is neither \<open>null\<close> nor \<open>undefined\<close>: only a string
  has the method; on every other value the call raises a \<open>TypeError\<close>.
\<close>

definition call_toLowerCase :: "(string \<Rightarrow> string) \<Rightarrow> js_value \<Rightarrow> js_error + string" where
  "call_toLowerCase unicode_lower v =
     (case v of VString s \<Rightarrow> Inr (toLowerCase unicode_lower s) | _ \<Rightarrow> Inl TypeError)"

subsection \<open>Configuration\<close>

record config =
  BACKEND :: string
  MCP_ENV :: string
  IS_SANDBOX :: bool

text \<open>The module's constants, read once from \<open>process.env\<close>.\<close>

definition load_config :: "(string \<Rightarrow> string option) \<Rightarrow> config" where
  "load_config process_env =
     (let api_url = (case process_env ''PAYNEXUS_API_URL'' of
                       None \<Rightarrow> ''http://localhost:3001'' | Some v \<Rightarrow> v);
          mcp_env = (case process_env ''MCP_ENV'' of None \<Rightarrow> ''demo'' | Some v \<Rightarrow> v)
      in \<lparr> BACKEND = (if api_url \<noteq> [] \<and> last api_url = CHR ''/''
                       then butlast api_url else api_url),
           MCP_ENV = mcp_env,
           IS_SANDBOX = (process_env ''PAYNEXUS_ENV'' = Some ''sandbox'' \<or> mcp_env = ''demo'') \<rparr>)"

subsection \<open>Requests and responses\<close>

text \<open>
  The request body; an absent property is \<open>None\<close>. The properties whose value decides
  what a handler does with a request (\<open>email\<close>, \<open>amount\<close>, \<open>currency\<close>) and \<open>metadata\<close> are
  the JavaScript values the parser built; the others, which are only passed on, are at
  the types the handlers cast them to.
\<close>

record req_body =
  email :: "js_value option"
  password :: "string option"
  jwt :: "string option"
  tag :: "string option"
  org_id :: "string option"
  env :: "string option"
  scopes :: "string list option"
  amount :: "js_value option"
  currency :: "js_value option"
  metadata :: "js_value option"
  url :: "string option"
  events :: "string list option"

record request =
  authorization :: "string option"
  body :: req_body

record response =
  status :: nat
  sent :: json

definition empty_body :: req_body where
  "empty_body =
     \<lparr> email = None, password = None, jwt = None, tag = None, org_id = None, env = None,
       scopes = None, amount = None, currency = None, metadata = None, url = None,
       events = None \<rparr>"

subsection \<open>In-memory state\<close>

record DemoCheckout =
  checkout_id :: string
  checkout_amount :: js_value
  checkout_currency :: string
  checkout_status :: string
  checkout_createdAt :: string

record DemoWebhook =
  webhook_id :: string
  webhook_url :: string
  webhook_events :: "string list"
  webhook_createdAt :: string

record DemoSession =
  token :: string
  session_email :: js_value
  apiKey :: "string option"
  checkouts :: "DemoCheckout list"
  webhooks :: "DemoWebhook list"
  createdAt :: string

text \<open>
  \<open>prodState\<close>: both fields start as \<open>null\<close> and are assigned from values of type
  \<open>any\<close>, so they hold JSON values.
\<close>

record prod_state =
  prod_jwt :: json
  prod_apiKey :: json

text \<open>
  \<open>demoSessions\<close> is a JavaScript \<open>Map\<close>: it keeps insertion order, and \<open>set\<close> on a
  key it holds replaces the value in place (\<^const>\<open>AList.update\<close>). \<open>uuid_calls\<close>
  counts the calls of \<open>randomUUID()\<close> made so far.
\<close>

record state =
  demoSessions :: "(string \<times> DemoSession) list"
  prodState :: prod_state
  uuid_calls :: nat

definition initial_state :: state where
  "initial_state =
     \<lparr> demoSessions = [], prodState = \<lparr> prod_jwt = JNull, prod_apiKey = JNull \<rparr>,
       uuid_calls = 0 \<rparr>"

subsection \<open>The backend and the environment\<close>

text \<open>The JSON body of a backend call.\<close>

datatype payload =
    KeyCreateV1 string string string "string list option"
  | KeyCreateLegacy string
  | Forwarded req_body
  | WebhookCreate string "string list"

text \<open>
  What \<open>axios.post\<close> raises: an \<open>AxiosError\<close> with its message and, when the backend
  answered, the status and data of the answer (data \<open>None\<close> when undefined); or anything
  else.
\<close>

datatype thrown =
    AxiosError "(nat \<times> json option) option" string
  | OtherError

text \<open>
  One backend call: the URL, the token placed after \<open>Bearer\<close> in the Authorization
  header (\<open>None\<close> when no header is attached) and the body.
\<close>

type_synonym call = "string \<times> json option \<times> payload"

text \<open>
  What a request takes from outside the process: the values the successive calls of
  \<open>randomUUID()\<close> return, the clock (\<open>new Date().toISOString()\<close> and the expiry time
  thirty minutes later), the answer of the backend to each call, and the engine's case
  mapping of strings that are not ASCII.
\<close>

record runtime =
  uuid :: "nat \<Rightarrow> string"
  now :: string
  expires :: string
  backend :: "call \<Rightarrow> thrown + json"
  unicode_lower :: "string \<Rightarrow> string"

record outcome =
  reply :: response
  final :: state
  calls :: "call list"

subsection \<open>Helpers\<close>

definition extractBearer :: "request \<Rightarrow> string option" where
  "extractBearer req =
     (case authorization req of
        None \<Rightarrow> None
      | Some auth \<Rightarrow> if take 7 auth = ''Bearer '' then Some (drop 7 auth) else None)"

definition authHeaders :: "json \<Rightarrow> json option" where
  "authHeaders tok = (if truthy tok then Some tok else None)"

text \<open>\<open>backendPost\<close>, returning the call it made beside the backend's answer.\<close>

definition backendPost ::
    "config \<Rightarrow> runtime \<Rightarrow> string \<Rightarrow> json \<Rightarrow> payload \<Rightarrow> call \<times> (thrown + json)" where
  "backendPost cfg rt path tok data =
     (let c = (BACKEND cfg @ path, authHeaders tok, data) in (c, backend rt c))"

definition sendError :: "thrown \<Rightarrow> response" where
  "sendError err =
     (case err of
        AxiosError resp message \<Rightarrow>
          \<lparr> status = (case resp of None \<Rightarrow> 502 | Some (code, d) \<Rightarrow> code),
            sent = (case resp of
                      None \<Rightarrow> JObject [(''error'', JString message)]
                    | Some (code, d) \<Rightarrow>
                        (case d of
                           None \<Rightarrow> JObject [(''error'', JString message)]
                         | Some v \<Rightarrow>
                             if v = JNull then JObject [(''error'', JString message)] else v)) \<rparr>
      | OtherError \<Rightarrow>
          \<lparr> status = 500, sent = JObject [(''error'', JString ''MCP internal error'')] \<rparr>)"

definition getDemoSession :: "request \<Rightarrow> state \<Rightarrow> DemoSession option" where
  "getDemoSession req st =
     (case extractBearer req of
        None \<Rightarrow> None
      | Some t \<Rightarrow> if t = [] then None else map_of (demoSessions st) t)"

text \<open>\<open>requireDemoSession\<close>: the session, or the 401 response it sends.\<close>

definition requireDemoSession :: "request \<Rightarrow> state \<Rightarrow> response + DemoSession" where
  "requireDemoSession req st =
     (case getDemoSession req st of
        None \<Rightarrow>
          Inl \<lparr> status = 401,
                sent = JObject
                  [(''error'', JString (''Unauthorized '' @ em_dash @ '' no valid demo session.'')),
                   (''hint'', JString
                      ''Call POST /auth/login first, then pass the token as Authorization: Bearer <token>.''),
                   (''mode'', JString ''sandbox'')] \<rparr>
      | Some session \<Rightarrow> Inr session)"

text \<open>
  The session a handler holds is the object stored under the bearer token; an assignment
  to one of its fields changes that entry of \<open>demoSessions\<close> in place.
\<close>

definition session_key :: "request \<Rightarrow> string" where
  "session_key req = (case extractBearer req of None \<Rightarrow> [] | Some t \<Rightarrow> t)"

definition mutate_session :: "request \<Rightarrow> (DemoSession \<Rightarrow> DemoSession) \<Rightarrow> state \<Rightarrow> state" where
  "mutate_session req f st =
     st\<lparr> demoSessions := AList.map_entry (session_key req) f (demoSessions st) \<rparr>"

text \<open>\<open>.replace(/-/g, '')\<close>\<close>

definition strip_dashes :: "string \<Rightarrow> string" where
  "strip_dashes u = filter (\<lambda>c. c \<noteq> CHR ''-'') u"

text \<open>\<open>k ? `${k.slice(0, 15)}...` : null\<close>\<close>

definition preview :: "string option \<Rightarrow> json" where
  "preview k =
     (case k of
        None \<Rightarrow> JNull
      | Some key \<Rightarrow> if key = [] then JNull else JString (take 15 key @ ''...''))"

definition json_strings :: "string list \<Rightarrow> json" where
  "json_strings xs = JArray (map JString xs)"

definition checkout_json :: "DemoCheckout \<Rightarrow> json" where
  "checkout_json c =
     JObject [(''id'', JString (checkout_id c)), (''amount'', stringify (checkout_amount c)),
              (''currency'', JString (checkout_currency c)),
              (''status'', JString (checkout_status c)),
              (''createdAt'', JString (checkout_createdAt c))]"

definition webhook_json :: "DemoWebhook \<Rightarrow> json" where
  "webhook_json w =
     JObject [(''id'', JString (webhook_id w)), (''url'', JString (webhook_url w)),
              (''events'', json_strings (webhook_events w)),
              (''createdAt'', JString (webhook_createdAt w))]"

definition mode_name :: "config \<Rightarrow> string" where
  "mode_name cfg = (if IS_SANDBOX cfg then ''sandbox'' else ''production'')"

text \<open>\<open>if (d?.name) prodState.apiKey = d.name\<close>\<close>

definition store_key :: "json \<Rightarrow> string \<Rightarrow> state \<Rightarrow> state" where
  "store_key d name st =
     (case get_prop d name of
        None \<Rightarrow> st
      | Some k \<Rightarrow> if truthy k then st\<lparr> prodState := (prodState st)\<lparr> prod_apiKey := k \<rparr> \<rparr> else st)"

text \<open>\<open>extractBearer(req) ?? slot\<close>\<close>

definition bearer_or :: "request \<Rightarrow> json \<Rightarrow> json" where
  "bearer_or req slot = (case extractBearer req of None \<Rightarrow> slot | Some t \<Rightarrow> JString t)"

definition or_default :: "'a option \<Rightarrow> 'a \<Rightarrow> 'a" where
  "or_default v d = (case v of None \<Rightarrow> d | Some x \<Rightarrow> x)"

subsection \<open>Routes\<close>

text \<open>GET /health\<close>

definition get_health :: "config \<Rightarrow> runtime \<Rightarrow> request \<Rightarrow> state \<Rightarrow> outcome" where
  "get_health cfg rt req st =
     \<lparr> reply = \<lparr> status = 200,
                 sent = JObject
                   ([(''status'', JString ''ok''), (''service'', JString ''paynexus-mcp''),
                     (''mode'', JString (mode_name cfg)), (''env'', JString (MCP_ENV cfg)),
                     (''backend'', JString (if IS_SANDBOX cfg then ''(not used in sandbox mode)''
                                            else BACKEND cfg))]
                    @ (if IS_SANDBOX cfg
                       then [(''sessions'', JNumber (of_nat (length (demoSessions st))))]
                       else [])) \<rparr>,
       final = st, calls = [] \<rparr>"

text \<open>POST /auth/login\<close>

definition post_auth_login :: "config \<Rightarrow> runtime \<Rightarrow> request \<Rightarrow> state \<Rightarrow> outcome" where
  "post_auth_login cfg rt req st =
     (if \<not> IS_SANDBOX cfg then
        \<lparr> reply = \<lparr> status = 404,
                    sent = JObject
                      [(''error'', JString ''/auth/login is only available in sandbox mode.''),
                       (''hint'', JString
                          ''Use POST /auth/forward with a real Supabase JWT in production.'')] \<rparr>,
          final = st, calls = [] \<rparr>
      else
        (case email (body req) of
           None \<Rightarrow>
             \<lparr> reply = \<lparr> status = 400,
                         sent = JObject [(''error'', JString ''Provide email in request body.'')] \<rparr>,
               final = st, calls = [] \<rparr>
         | Some e \<Rightarrow>
             if \<not> js_truthy e then
               \<lparr> reply = \<lparr> status = 400,
                           sent = JObject [(''error'', JString ''Provide email in request body.'')] \<rparr>,
                 final = st, calls = [] \<rparr>
             else
               (let tok = uuid rt (uuid_calls st);
                    session = \<lparr> token = tok, session_email = e, apiKey = None, checkouts = [],
                                webhooks = [], createdAt = now rt \<rparr>
                in \<lparr> reply = \<lparr> status = 200,
                               sent = JObject
                                 [(''ok'', JBool True), (''token'', JString tok),
                                  (''email'', stringify e), (''mode'', JString ''sandbox''),
                                  (''message'', JString
                                     ''Demo session created. Pass token as: Authorization: Bearer <token>''),
                                  (''warning'', JString
                                     ''Sandbox session only. No real authentication occurred.'')] \<rparr>,
                     final = st\<lparr> demoSessions := AList.update tok session (demoSessions st),
                                 uuid_calls := Suc (uuid_calls st) \<rparr>,
                     calls = [] \<rparr>)))"

text \<open>POST /auth/forward\<close>

definition forward_token :: "request \<Rightarrow> string option" where
  "forward_token req = (case jwt (body req) of None \<Rightarrow> extractBearer req | Some j \<Rightarrow> Some j)"

definition post_auth_forward :: "config \<Rightarrow> runtime \<Rightarrow> request \<Rightarrow> state \<Rightarrow> outcome" where
  "post_auth_forward cfg rt req st =
     (let bad = \<lparr> reply = \<lparr> status = 400,
                            sent = JObject
                              [(''error'', JString
                                  (if IS_SANDBOX cfg
                                   then ''Provide jwt in body. In sandbox mode, prefer POST /auth/login instead.''
                                   else ''Provide jwt in body or Authorization: Bearer <token>''))] \<rparr>,
                  final = st, calls = [] \<rparr>
      in case forward_token req of
           None \<Rightarrow> bad
         | Some tok \<Rightarrow>
             if tok = [] then bad
             else
               \<lparr> reply = \<lparr> status = 200,
                           sent = JObject
                             [(''ok'', JBool True), (''mode'', JString (mode_name cfg)),
                              (''message'', JString
                                 (if IS_SANDBOX cfg
                                  then ''JWT stored in legacy state. For the full demo flow, use POST /auth/login.''
                                  else ''JWT stored. Call POST /api-keys/create next.''))] \<rparr>,
                 final = st\<lparr> prodState := (prodState st)\<lparr> prod_jwt := JString tok \<rparr> \<rparr>,
                 calls = [] \<rparr>)"

text \<open>POST /api-keys/create\<close>

definition post_api_keys_create :: "config \<Rightarrow> runtime \<Rightarrow> request \<Rightarrow> state \<Rightarrow> outcome" where
  "post_api_keys_create cfg rt req st =
     (if IS_SANDBOX cfg then
        (case requireDemoSession req st of
           Inl unauthorized \<Rightarrow> \<lparr> reply = unauthorized, final = st, calls = [] \<rparr>
         | Inr session \<Rightarrow>
             (let key = ''pk_demo_'' @ strip_dashes (uuid rt (uuid_calls st))
              in \<lparr> reply = \<lparr> status = 200,
                             sent = JObject
                               [(''ok'', JBool True), (''key'', JString key),
                                (''mode'', JString ''sandbox''),
                                (''session'', stringify (session_email session)),
                                (''warning'', JString
                                   (''Demo API key '' @ em_dash
                                    @ '' stored in memory only. Not valid for real transactions.''))] \<rparr>,
                   final = (mutate_session req (\<lambda>s. s\<lparr> apiKey := Some key \<rparr>) st)
                             \<lparr> uuid_calls := Suc (uuid_calls st) \<rparr>,
                   calls = [] \<rparr>))
      else
        (let tok = bearer_or req (prod_jwt (prodState st));
             v1Body = KeyCreateV1 (or_default (org_id (body req)) ''demo-org'')
                                  (or_default (tag (body req)) ''ai-agent'')
                                  (or_default (env (body req)) ''sandbox'')
                                  (scopes (body req));
             (c1, r) = backendPost cfg rt ''/v1/api-keys/create'' tok v1Body
         in case r of
              Inr d \<Rightarrow>
                \<lparr> reply = \<lparr> status = 200, sent = d \<rparr>,
                  final = store_key d ''raw_key'' st, calls = [c1] \<rparr>
            | Inl err \<Rightarrow>
                (let (c2, r2) = backendPost cfg rt ''/api/keys/create'' JNull
                                  (KeyCreateLegacy (or_default (tag (body req)) ''ai-agent''))
                 in case r2 of
                      Inr d2 \<Rightarrow>
                        \<lparr> reply = \<lparr> status = 200, sent = d2 \<rparr>,
                          final = store_key d2 ''key'' st, calls = [c1, c2] \<rparr>
                    | Inl err2 \<Rightarrow>
                        \<lparr> reply = sendError err2, final = st, calls = [c1, c2] \<rparr>)))"

text \<open>POST /api-keys/rotate\<close>

definition post_api_keys_rotate :: "config \<Rightarrow> runtime \<Rightarrow> request \<Rightarrow> state \<Rightarrow> outcome" where
  "post_api_keys_rotate cfg rt req st =
     (if IS_SANDBOX cfg then
        (case requireDemoSession req st of
           Inl unauthorized \<Rightarrow> \<lparr> reply = unauthorized, final = st, calls = [] \<rparr>
         | Inr session \<Rightarrow>
             (let oldKey = apiKey session;
                  newKey = ''pk_demo_'' @ strip_dashes (uuid rt (uuid_calls st))
              in \<lparr> reply = \<lparr> status = 200,
                             sent = JObject
                               [(''ok'', JBool True), (''key'', JString newKey),
                                (''rotated'', JBool True), (''old_key'', preview oldKey),
                                (''mode'', JString ''sandbox''),
                                (''warning'', JString
                                   ''Demo key rotation. No real keys were affected.'')] \<rparr>,
                   final = (mutate_session req (\<lambda>s. s\<lparr> apiKey := Some newKey \<rparr>) st)
                             \<lparr> uuid_calls := Suc (uuid_calls st) \<rparr>,
                   calls = [] \<rparr>))
      else
        (let tok = bearer_or req (prod_apiKey (prodState st));
             (c, r) = backendPost cfg rt ''/v1/api-keys/rotate'' tok (Forwarded (body req))
         in case r of
              Inr d \<Rightarrow>
                \<lparr> reply = \<lparr> status = 200, sent = d \<rparr>,
                  final = store_key d ''raw_key'' st, calls = [c] \<rparr>
            | Inl err \<Rightarrow> \<lparr> reply = sendError err, final = st, calls = [c] \<rparr>))"

text \<open>
  POST /checkout/demo. In the sandbox branch the call of \<open>toLowerCase\<close> comes before the
  first \<open>randomUUID()\<close> and before the session is touched; when it raises, the handler
  ends there, having sent nothing. In the production branch the body is spread over the
  two defaults: a property that is present, whatever its value, replaces the default.
\<close>

definition post_checkout_demo ::
    "config \<Rightarrow> runtime \<Rightarrow> request \<Rightarrow> state \<Rightarrow> js_error + outcome" where
  "post_checkout_demo cfg rt req st =
     (if IS_SANDBOX cfg then
        (case requireDemoSession req st of
           Inl unauthorized \<Rightarrow> Inr \<lparr> reply = unauthorized, final = st, calls = [] \<rparr>
         | Inr session \<Rightarrow>
             (let amt = coalesce (amount (body req)) (VNumber (Finite 4900))
              in case call_toLowerCase (unicode_lower rt)
                        (coalesce (currency (body req)) (VString ''usd'')) of
                   Inl err \<Rightarrow> Inl err
                 | Inr cur \<Rightarrow>
                     (let cid = ''cs_demo_'' @ strip_dashes (uuid rt (uuid_calls st));
                          checkout = JObject
                            [(''id'', JString cid), (''object'', JString ''checkout_session''),
                             (''amount'', stringify amt), (''currency'', JString cur),
                             (''status'', JString ''pending''), (''created_at'', JString (now rt)),
                             (''expires_at'', JString (expires rt)),
                             (''merchant'', stringify (session_email session)),
                             (''api_key'', preview (apiKey session)),
                             (''payment_url'', JString (''https://checkout.paynexus.demo/''
                                                         @ uuid rt (Suc (uuid_calls st)))),
                             (''metadata'', stringify (coalesce (metadata (body req)) (VObject []))),
                             (''mode'', JString ''sandbox'')]
                      in Inr \<lparr> reply = \<lparr> status = 200, sent = checkout \<rparr>,
                               final = (mutate_session req
                                          (\<lambda>s. s\<lparr> checkouts := checkouts s @
                                                  [\<lparr> checkout_id = cid, checkout_amount = amt,
                                                     checkout_currency = cur,
                                                     checkout_status = ''pending'',
                                                     checkout_createdAt = now rt \<rparr>] \<rparr>) st)
                                         \<lparr> uuid_calls := Suc (Suc (uuid_calls st)) \<rparr>,
                               calls = [] \<rparr>)))
      else
        (let tok = bearer_or req (prod_apiKey (prodState st));
             data = Forwarded ((body req)
                      \<lparr> amount := Some (or_default (amount (body req)) (VNumber (Finite 4900))),
                        currency := Some (or_default (currency (body req)) (VString ''usd'')) \<rparr>);
             (c1, r) = backendPost cfg rt ''/v1/checkout/create'' tok data
         in case r of
              Inr d \<Rightarrow> Inr \<lparr> reply = \<lparr> status = 200, sent = d \<rparr>, final = st, calls = [c1] \<rparr>
            | Inl err \<Rightarrow>
                (let (c2, r2) = backendPost cfg rt ''/api/checkout/create'' JNull data
                 in case r2 of
                      Inr d2 \<Rightarrow>
                        Inr \<lparr> reply = \<lparr> status = 200, sent = d2 \<rparr>, final = st,
                              calls = [c1, c2] \<rparr>
                    | Inl err2 \<Rightarrow>
                        Inr \<lparr> reply = sendError err2, final = st, calls = [c1, c2] \<rparr>)))"

text \<open>POST /webhooks/create\<close>

definition post_webhooks_create :: "config \<Rightarrow> runtime \<Rightarrow> request \<Rightarrow> state \<Rightarrow> outcome" where
  "post_webhooks_create cfg rt req st =
     (let hook_url = or_default (url (body req)) ''https://webhook.site/demo'';
          hook_events = or_default (events (body req))
                          [''checkout.confirmed'', ''transaction.succeeded'']
      in if IS_SANDBOX cfg then
           (case requireDemoSession req st of
              Inl unauthorized \<Rightarrow> \<lparr> reply = unauthorized, final = st, calls = [] \<rparr>
            | Inr session \<Rightarrow>
                (let wid = ''wh_demo_'' @ strip_dashes (uuid rt (uuid_calls st))
                 in \<lparr> reply = \<lparr> status = 200,
                                sent = JObject
                                  [(''id'', JString wid), (''url'', JString hook_url),
                                   (''events'', json_strings hook_events),
                                   (''status'', JString ''active''),
                                   (''created_at'', JString (now rt)),
                                   (''mode'', JString ''sandbox'')] \<rparr>,
                      final = (mutate_session req
                                 (\<lambda>s. s\<lparr> webhooks := webhooks s @
                                         [\<lparr> webhook_id = wid, webhook_url = hook_url,
                                            webhook_events = hook_events,
                                            webhook_createdAt = now rt \<rparr>] \<rparr>) st)
                                \<lparr> uuid_calls := Suc (uuid_calls st) \<rparr>,
                      calls = [] \<rparr>))
         else
           (let tok = bearer_or req (prod_apiKey (prodState st));
                (c, r) = backendPost cfg rt ''/v1/webhooks'' tok (WebhookCreate hook_url hook_events)
            in case r of
                 Inr d \<Rightarrow> \<lparr> reply = \<lparr> status = 200, sent = d \<rparr>, final = st, calls = [c] \<rparr>
               | Inl err \<Rightarrow> \<lparr> reply = sendError err, final = st, calls = [c] \<rparr>))"

text \<open>GET /session\<close>

definition get_session :: "config \<Rightarrow> runtime \<Rightarrow> request \<Rightarrow> state \<Rightarrow> outcome" where
  "get_session cfg rt req st =
     (if \<not> IS_SANDBOX cfg then
        \<lparr> reply = \<lparr> status = 404,
                    sent = JObject [(''error'', JString ''Not available in production mode.'')] \<rparr>,
          final = st, calls = [] \<rparr>
      else
        (case requireDemoSession req st of
           Inl unauthorized \<Rightarrow> \<lparr> reply = unauthorized, final = st, calls = [] \<rparr>
         | Inr session \<Rightarrow>
             \<lparr> reply = \<lparr> status = 200,
                         sent = JObject
                           [(''email'', stringify (session_email session)),
                            (''mode'', JString ''sandbox''),
                            (''hasApiKey'', JBool (apiKey session \<noteq> None)),
                            (''apiKey'', preview (apiKey session)),
                            (''checkouts'', JArray (map checkout_json (checkouts session))),
                            (''webhooks'', JArray (map webhook_json (webhooks session))),
                            (''createdAt'', JString (createdAt session)),
                            (''warning'', JString
                               (''Sandbox session '' @ em_dash
                                @ '' in-memory only, resets on server restart.''))] \<rparr>,
               final = st, calls = [] \<rparr>))"

text \<open>GET /sessions\<close>

definition get_sessions :: "config \<Rightarrow> runtime \<Rightarrow> request \<Rightarrow> state \<Rightarrow> outcome" where
  "get_sessions cfg rt req st =
     (if \<not> IS_SANDBOX cfg then
        \<lparr> reply = \<lparr> status = 404,
                    sent = JObject [(''error'', JString ''Not available in production mode.'')] \<rparr>,
          final = st, calls = [] \<rparr>
      else
        (let list = map (\<lambda>(k, s).
                      JObject [(''email'', stringify (session_email s)),
                               (''hasApiKey'', JBool (apiKey s \<noteq> None)),
                               (''checkouts'', JNumber (of_nat (length (checkouts s)))),
                               (''webhooks'', JNumber (of_nat (length (webhooks s)))),
                               (''createdAt'', JString (createdAt s))])
                    (demoSessions st)
         in \<lparr> reply = \<lparr> status = 200,
                        sent = JObject [(''mode'', JString ''sandbox''),
                                        (''total'', JNumber (of_nat (length list))),
                                        (''sessions'', JArray list)] \<rparr>,
              final = st, calls = [] \<rparr>))"

subsection \<open>The service as a state machine\<close>

datatype route =
    GET_health
  | POST_auth_login
  | POST_auth_forward
  | POST_api_keys_create
  | POST_api_keys_rotate
  | POST_checkout_demo
  | POST_webhooks_create
  | GET_session
  | GET_sessions

text \<open>
  What serving a request comes to: the outcome of the handler, or the error it raised. A
  handler that raises has sent no response.
\<close>

fun handle :: "config \<Rightarrow> runtime \<Rightarrow> route \<Rightarrow> request \<Rightarrow> state \<Rightarrow> js_error + outcome" where
  "handle cfg rt GET_health req st = Inr (get_health cfg rt req st)"
| "handle cfg rt POST_auth_login req st = Inr (post_auth_login cfg rt req st)"
| "handle cfg rt POST_auth_forward req st = Inr (post_auth_forward cfg rt req st)"
| "handle cfg rt POST_api_keys_create req st = Inr (post_api_keys_create cfg rt req st)"
| "handle cfg rt POST_api_keys_rotate req st = Inr (post_api_keys_rotate cfg rt req st)"
| "handle cfg rt POST_checkout_demo req st = post_checkout_demo cfg rt req st"
| "handle cfg rt POST_webhooks_create req st = Inr (post_webhooks_create cfg rt req st)"
| "handle cfg rt GET_session req st = Inr (get_session cfg rt req st)"
| "handle cfg rt GET_sessions req st = Inr (get_sessions cfg rt req st)"

text \<open>
  The states the process can be in: it starts in \<open>initial_state\<close> and serves one request
  after another. The clock and the backend's answers differ from request to request;
  the values that \<open>randomUUID()\<close> returns are the one sequence \<open>gen\<close>. A handler that
  raises has changed nothing.
\<close>

inductive reachable :: "config \<Rightarrow> (nat \<Rightarrow> string) \<Rightarrow> state \<Rightarrow> bool"
  for cfg :: config and gen :: "nat \<Rightarrow> string" where
  start: "reachable cfg gen initial_state"
| serve: "reachable cfg gen st \<Longrightarrow> uuid rt = gen \<Longrightarrow> handle cfg rt r req st = Inr out \<Longrightarrow>
          reachable cfg gen (final out)"

text \<open>
  The shape of what \<open>randomUUID()\<close> returns: 36 characters, lower-case hexadecimal digits
  in five groups separated by dashes.
\<close>

definition is_hex_digit :: "char \<Rightarrow> bool" where
  "is_hex_digit c =
     (let n = (of_char c :: nat) in (48 \<le> n \<and> n \<le> 57) \<or> (97 \<le> n \<and> n \<le> 102))"

definition uuid_shape :: string where
  "uuid_shape = ''xxxxxxxx-xxxx-xxxx-xxxx-xxxxxxxxxxxx''"

definition shape_ok :: "char \<Rightarrow> char \<Rightarrow> bool" where
  "shape_ok t c = (if t = CHR ''-'' then c = CHR ''-'' else is_hex_digit c)"

definition is_uuid :: "string \<Rightarrow> bool" where
  "is_uuid u = list_all2 shape_ok uuid_shape u"

text \<open>A request with no Authorization header and an empty body, to be filled in.\<close>

definition blank_request :: request where
  "blank_request = \<lparr> authorization = None, body = empty_body \<rparr>"

text \<open>
  What holds of the registry in every reachable state: each session token is one of the
  UUIDs drawn so far, and each stored key was made from one of them.
\<close>

definition registry_inv :: "(nat \<Rightarrow> string) \<Rightarrow> state \<Rightarrow> bool" where
  "registry_inv gen st =
     ((\<forall>t \<in> fst ` set (demoSessions st). \<exists>i < uuid_calls st. t = gen i)
      \<and> (\<forall>s \<in> snd ` set (demoSessions st).
            \<forall>k. apiKey s = Some k \<longrightarrow>
              (\<exists>i < uuid_calls st. k = ''pk_demo_'' @ strip_dashes (gen i))))"

subsection \<open>Concrete configurations, for instances of the theorems\<close>

definition sandbox_config :: config where
  "sandbox_config = \<lparr> BACKEND = ''http://localhost:3001'', MCP_ENV = ''demo'', IS_SANDBOX = True \<rparr>"

definition production_config :: config where
  "production_config =
     \<lparr> BACKEND = ''http://localhost:3001'', MCP_ENV = ''production'', IS_SANDBOX = False \<rparr>"

definition example_uuid :: "nat \<Rightarrow> string" where
  "example_uuid n =
     (if n = 0 then ''00000000-0000-4000-8000-000000000000''
      else if n = 1 then ''11111111-1111-4111-8111-111111111111''
      else ''22222222-2222-4222-8222-222222222222'')"

text \<open>A generator of well-formed UUIDs that returns the same value at every call.\<close>

definition repeating_uuid :: "nat \<Rightarrow> string" where
  "repeating_uuid n = ''00000000-0000-4000-8000-000000000000''"

text \<open>A backend on which only the legacy key route works; it answers \<open>{key: k}\<close>.\<close>

definition legacy_backend :: "json \<Rightarrow> call \<Rightarrow> thrown + json" where
  "legacy_backend k c =
     (if fst c = ''http://localhost:3001/api/keys/create'' then Inr (JObject [(''key'', k)])
      else Inl (AxiosError (Some (401, Some (JObject [(''error'', JString ''invalid token'')])))
                  ''Request failed with status code 401''))"



definition crashing_backend :: "call \<Rightarrow> thrown + json" where
  "crashing_backend c = Inl OtherError"

definition example_runtime :: "(call \<Rightarrow> thrown + json) \<Rightarrow> runtime" where
  "example_runtime b =
     \<lparr> uuid = example_uuid, now = ''2026-01-01T00:00:00.000Z'',
       expires = ''2026-01-01T00:30:00.000Z'', backend = b, unicode_lower = (\<lambda>s. s) \<rparr>"

text \<open>The same with the repeating generator.\<close>

definition repeating_runtime :: runtime where
  "repeating_runtime = (example_runtime crashing_backend)\<lparr> uuid := repeating_uuid \<rparr>"

definition bearer_request :: "string \<Rightarrow> request" where
  "bearer_request t = \<lparr> authorization = Some (''Bearer '' @ t), body = empty_body \<rparr>"

definition login_request :: "string \<Rightarrow> request" where
  "login_request e = \<lparr> authorization = None, body = empty_body\<lparr> email := Some (VString e) \<rparr> \<rparr>"

text \<open>The state after one login and one key issuance in sandbox mode.\<close>

definition logged_in :: state where
  "logged_in =
     final (post_auth_login sandbox_config (example_runtime (legacy_backend JNull))
              (login_request ''demo@x.io'') initial_state)"

definition with_key :: state where
  "with_key =
     final (post_api_keys_create sandbox_config (example_runtime (legacy_backend JNull))
              (bearer_request ''00000000-0000-4000-8000-000000000000'') logged_in)"

text \<open>A production state that already holds an API key.\<close>

definition holding_key :: state where
  "holding_key =
     initial_state\<lparr> prodState := \<lparr> prod_jwt = JNull, prod_apiKey = JString ''pk_live_old'' \<rparr> \<rparr>"

definition checkout_request :: request where
  "checkout_request =
     \<lparr> authorization = Some ''Bearer 00000000-0000-4000-8000-000000000000'',
       body = empty_body\<lparr> amount := Some (VNumber (Finite 1250)),
                          currency := Some (VString ''EUR'') \<rparr> \<rparr>"

text \<open>
  The same request with the amount that \<open>{"amount": 1e400}\<close> parses to, and with a
  currency that is a number.
\<close>

definition infinite_amount_request :: request where
  "infinite_amount_request =
     checkout_request\<lparr> body := (body checkout_request)\<lparr> amount := Some (VNumber PosInfinity) \<rparr> \<rparr>"

definition numeric_currency_request :: request where
  "numeric_currency_request =
     checkout_request\<lparr> body := (body checkout_request)\<lparr> currency := Some (VNumber (Finite 5)) \<rparr> \<rparr>"

text \<open>
  The states after one login, and after a login and a key issuance, when \<open>randomUUID()\<close>
  repeats itself.
\<close>

definition repeated_login :: state where
  "repeated_login = final (post_auth_login sandbox_config repeating_runtime
                             (login_request ''demo@x.io'') initial_state)"

definition repeated_key :: state where
  "repeated_key =
     final (post_api_keys_create sandbox_config repeating_runtime
              (bearer_request ''00000000-0000-4000-8000-000000000000'') repeated_login)"

definition forward_request :: "string \<Rightarrow> request" where
  "forward_request j = \<lparr> authorization = None, body = empty_body\<lparr> jwt := Some j \<rparr> \<rparr>"

section \<open>Properties of signature verification\<close>

lemma unat_unit_of_nat: "n < 65536 \<Longrightarrow> unat (word_of_nat n :: code_unit) = n"
  using unat_of_nat [where 'a = 16, of n] by simp

lemma unhex_hex_char: "n < 16 \<Longrightarrow> unhex (hex_char n) = Some n"
  by (simp add: unhex_def hex_char_def Let_def unat_unit_of_nat)

lemma unhex_less: "unhex c = Some x \<Longrightarrow> x < 16"
  by (auto simp: unhex_def Let_def split: if_splits)

text \<open>The decoder reads the low byte of a code unit and nothing else of it.\<close>

lemma unhex_low_byte: "unat v mod 256 = unat u mod 256 \<Longrightarrow> unhex v = unhex u"
  by (simp add: unhex_def)

lemma byte_nibbles: "byte_of_digits (unat b div 16) (unat b mod 16) = b"
  by (simp add: byte_of_digits_def)

lemma byte_high_nibble: "unat (b :: byte) div 16 < 16"
proof -
  have "unat b < 2 ^ 8" using unsigned_less [of b] by simp
  then show ?thesis by simp
qed

lemma unat_byte_of_nat: "unat (word_of_nat n :: byte) = n mod 256"
  using unat_of_nat [where 'a = 8, of n] by simp

lemma byte_of_nibbles:
  assumes "x < 16" and "y < 16" and "byte_of_digits x y = b"
  shows "x = unat b div 16 \<and> y = unat b mod 16"
proof -
  have "unat (byte_of_digits x y) = (16 * x + y) mod 256"
    unfolding byte_of_digits_def by (rule unat_byte_of_nat)
  with assms have "unat b = 16 * x + y" by simp
  with assms show ?thesis by simp
qed

text \<open>Decoding undoes encoding, also when other code units follow the digits.\<close>

lemma from_hex_to_hex_append: "from_hex (to_hex bs @ rest) = bs @ from_hex rest"
  by (induction bs) (simp_all add: unhex_hex_char byte_nibbles byte_high_nibble)

lemma from_hex_to_hex: "from_hex (to_hex bs) = bs"
  using from_hex_to_hex_append [of bs "[]"] by simp

text \<open>The verifier compares the decoded signature with the digest, and nothing else.\<close>

lemma verifySignature_iff:
  "verifySignature hmac payload signature secret
     = (from_hex signature = hmac (utf8 secret) (utf8 payload))"
  by (auto simp: verifySignature_def timingSafeEqual_def from_hex_to_hex Let_def)

lemma from_hex_Nil_iff:
  "from_hex s = [] \<longleftrightarrow> (\<forall>a b rest. s = a # b # rest \<longrightarrow> unhex a = None \<or> unhex b = None)"
  by (cases s rule: from_hex.cases) (auto split: option.splits)

lemma from_hex_Cons_iff:
  "from_hex (a # c # rest) = b # bs \<longleftrightarrow>
     unhex a = Some (unat b div 16) \<and> unhex c = Some (unat b mod 16) \<and> from_hex rest = bs"
proof
  assume l: "from_hex (a # c # rest) = b # bs"
  then obtain x y where x: "unhex a = Some x" and y: "unhex c = Some y"
    and w: "byte_of_digits x y = b" and r: "from_hex rest = bs"
    by (auto split: option.splits)
  from x y have "x < 16" "y < 16" by (auto dest: unhex_less)
  from byte_of_nibbles [OF this w] x y r
  show "unhex a = Some (unat b div 16) \<and> unhex c = Some (unat b mod 16) \<and> from_hex rest = bs"
    by simp
next
  assume "unhex a = Some (unat b div 16) \<and> unhex c = Some (unat b mod 16) \<and> from_hex rest = bs"
  then show "from_hex (a # c # rest) = b # bs" by (simp add: byte_nibbles)
qed

lemma length_to_hex: "length (to_hex d) = 2 * length d"
  by (induction d) simp_all

text \<open>
  What it takes for a string to decode to given bytes: it starts with as many code units
  as the bytes have digits, each read as the digit at its place, and the decoder stops
  right after them: at the end of the string, at a single last unit, or at a pair with a
  unit that is read as no digit.
\<close>

lemma from_hex_eq_iff:
  "from_hex s = d \<longleftrightarrow>
     length (to_hex d) \<le> length s
     \<and> map unhex (take (length (to_hex d)) s) = map unhex (to_hex d)
     \<and> (\<forall>a b rest. drop (length (to_hex d)) s = a # b # rest \<longrightarrow> unhex a = None \<or> unhex b = None)"
proof (induction d arbitrary: s)
  case Nil
  show ?case by (simp add: from_hex_Nil_iff)
next
  case (Cons b bs)
  let ?hi = "unat b div 16" and ?lo = "unat b mod 16"
  have hi: "unhex (hex_char ?hi) = Some ?hi" and lo: "unhex (hex_char ?lo) = Some ?lo"
    by (simp_all add: unhex_hex_char byte_high_nibble)
  show ?case
  proof (cases s rule: from_hex.cases)
    case (1 a c rest)
    have "from_hex s = b # bs \<longleftrightarrow>
            unhex a = Some ?hi \<and> unhex c = Some ?lo \<and> from_hex rest = bs"
      unfolding 1 by (rule from_hex_Cons_iff)
    also have "\<dots> \<longleftrightarrow> unhex a = Some ?hi \<and> unhex c = Some ?lo
        \<and> length (to_hex bs) \<le> length rest
        \<and> map unhex (take (length (to_hex bs)) rest) = map unhex (to_hex bs)
        \<and> (\<forall>a b r. drop (length (to_hex bs)) rest = a # b # r \<longrightarrow> unhex a = None \<or> unhex b = None)"
      by (simp only: Cons.IH [of rest])
    also have "\<dots> \<longleftrightarrow> length (to_hex (b # bs)) \<le> length s
        \<and> map unhex (take (length (to_hex (b # bs))) s) = map unhex (to_hex (b # bs))
        \<and> (\<forall>a b' r. drop (length (to_hex (b # bs))) s = a # b' # r \<longrightarrow> unhex a = None \<or> unhex b' = None)"
      using hi lo unfolding 1 by (auto simp del: from_hex.simps)
    finally show ?thesis .
  next
    case (2 a)
    then show ?thesis by (simp add: length_to_hex)
  next
    case 3
    then show ?thesis by (simp add: length_to_hex)
  qed
qed

lemma map_update_same:
  "i < length xs \<Longrightarrow> map f (xs[i := c]) = map f xs \<longleftrightarrow> f c = f (xs ! i)"
  by (auto simp: map_update list_update_same_conv)

text \<open>
  Replacing one digit of an encoded buffer leaves what is decoded as it is exactly when
  the new code unit is read as the same digit.
\<close>

lemma from_hex_digit_replaced:
  "i < length (to_hex d) \<Longrightarrow> from_hex ((to_hex d)[i := c]) = d \<longleftrightarrow> unhex c = unhex (to_hex d ! i)"
  by (simp add: from_hex_eq_iff [of "(to_hex d)[i := c]" d] map_update_same)

text \<open>The strings of the examples, their encodings, digests and signatures.\<close>

lemmas utf8_simps =
  ascii_def utf8_def utf8_of_def is_surrogate_def is_high_surrogate_def is_low_surrogate_def

lemma utf8_examples:
  "utf8 (ascii ''whsec'') = [0x77, 0x68, 0x73, 0x65, 0x63]"
  "utf8 (ascii ''{}'') = [0x7B, 0x7D]"
  "utf8 (ascii ''{x'') = [0x7B, 0x78]"
  "utf8 [0xD800] = [0xEF, 0xBF, 0xBD]"
  "utf8 [0xD801] = [0xEF, 0xBF, 0xBD]"
  by (simp_all add: utf8_simps)

lemma example_digest:
  "example_hmac (utf8 (ascii ''whsec'')) (utf8 (ascii ''{}''))
     = [0x77, 0x68, 0x73, 0x65, 0x63, 0x7B, 0x7D] @ replicate 25 0xAB"
  unfolding utf8_examples by code_simp

lemma example_signature:
  "sign example_hmac (ascii ''{}'') (ascii ''whsec'')
     = ascii ''77687365637b7dababababababababababababababababababababababababab''"
  unfolding sign_def example_digest by code_simp

text \<open>
  Claim C2, as the code has it. For every keyed hash, payload, secret and signature string,
  \<open>verifySignature\<close> answers without raising: a signature whose decoded length differs
  from the digest's is answered with false before the comparison, and on equal lengths
  the comparison does not raise. It answers true exactly when the signature starts with
  one code unit for each digit of the correct signature, each read as that digit, and the
  decoder stops right after them: nothing follows, or one single unit, or a pair holding a
  unit that is read as no digit. A code unit is read by its low byte alone, in either
  letter case. So a string that is not hexadecimal throughout is rejected unless it is
  the correct signature up to units read as the same digits and a tail that the decoder
  drops.
\<close>

theorem verifySignature_decoding:
  "(length (from_hex signature) \<noteq> length (hmac (utf8 secret) (utf8 payload))
      \<longrightarrow> \<not> verifySignature hmac payload signature secret)
   \<and> (length (from_hex (sign hmac payload secret)) = length (from_hex signature)
      \<longrightarrow> timingSafeEqual (from_hex (sign hmac payload secret)) (from_hex signature)
            = Inr (from_hex signature = hmac (utf8 secret) (utf8 payload)))
   \<and> (verifySignature hmac payload signature secret \<longleftrightarrow>
        length (sign hmac payload secret) \<le> length signature
        \<and> map unhex (take (length (sign hmac payload secret)) signature)
            = map unhex (sign hmac payload secret)
        \<and> (\<forall>a b rest. drop (length (sign hmac payload secret)) signature = a # b # rest
              \<longrightarrow> unhex a = None \<or> unhex b = None))
   \<and> (\<forall>u v. unat v mod 256 = unat u mod 256 \<longrightarrow> unhex v = unhex u)"
proof -
  have a: "length (from_hex signature) \<noteq> length (hmac (utf8 secret) (utf8 payload))
      \<longrightarrow> \<not> verifySignature hmac payload signature secret"
    by (auto simp: verifySignature_iff)
  have b: "length (from_hex (sign hmac payload secret)) = length (from_hex signature)
      \<longrightarrow> timingSafeEqual (from_hex (sign hmac payload secret)) (from_hex signature)
            = Inr (from_hex signature = hmac (utf8 secret) (utf8 payload))"
    by (auto simp: timingSafeEqual_def sign_def from_hex_to_hex)
  have c: "verifySignature hmac payload signature secret \<longleftrightarrow>
        length (sign hmac payload secret) \<le> length signature
        \<and> map unhex (take (length (sign hmac payload secret)) signature)
            = map unhex (sign hmac payload secret)
        \<and> (\<forall>a b rest. drop (length (sign hmac payload secret)) signature = a # b # rest
              \<longrightarrow> unhex a = None \<or> unhex b = None)"
    unfolding verifySignature_iff sign_def by (rule from_hex_eq_iff)
  have d: "\<forall>u v. unat v mod 256 = unat u mod 256 \<longrightarrow> unhex v = unhex u"
    using unhex_low_byte by blast
  from a b c d show ?thesis by (intro conjI)
qed

theorem verifySignature_decoding_witness:
  "length (from_hex (ascii ''77687365637b7dzz''))
     \<noteq> length (example_hmac (utf8 (ascii ''whsec'')) (utf8 (ascii ''{}'')))
   \<and> \<not> verifySignature example_hmac (ascii ''{}'') (ascii ''77687365637b7dzz'') (ascii ''whsec'')
   \<and> verifySignature example_hmac (ascii ''{}'')
        (ascii ''77687365637B7DABABABABABABABABABABABABABABABABABABABABABABABABABx'') (ascii ''whsec'')
   \<and> unat (0x164 :: code_unit) mod 256 = unat (0x64 :: code_unit) mod 256
   \<and> unhex 0x164 = unhex 0x64"
proof -
  note t = verifySignature_decoding [of _ example_hmac "ascii ''whsec''" "ascii ''{}''"]
  let ?s = "ascii ''77687365637b7dababababababababababababababababababababababababab''"
  let ?up = "ascii ''77687365637B7DABABABABABABABABABABABABABABABABABABABABABABABABABx''"
  have l: "length (from_hex (ascii ''77687365637b7dzz''))
     \<noteq> length (example_hmac (utf8 (ascii ''whsec'')) (utf8 (ascii ''{}'')))"
    unfolding example_digest by code_simp
  have n: "\<not> verifySignature example_hmac (ascii ''{}'') (ascii ''77687365637b7dzz'') (ascii ''whsec'')"
    using l t [of "ascii ''77687365637b7dzz''"] by blast
  have u1: "length ?s \<le> length ?up" by code_simp
  have u2: "map unhex (take (length ?s) ?up) = map unhex ?s" by code_simp
  have u3: "drop (length ?s) ?up = [0x78]" by code_simp
  have u: "length (sign example_hmac (ascii ''{}'') (ascii ''whsec'')) \<le> length ?up
        \<and> map unhex (take (length (sign example_hmac (ascii ''{}'') (ascii ''whsec''))) ?up)
            = map unhex (sign example_hmac (ascii ''{}'') (ascii ''whsec''))
        \<and> (\<forall>a b rest. drop (length (sign example_hmac (ascii ''{}'') (ascii ''whsec''))) ?up
                = a # b # rest \<longrightarrow> unhex a = None \<or> unhex b = None)"
    unfolding example_signature using u1 u2 u3 by simp
  have v: "verifySignature example_hmac (ascii ''{}'') ?up (ascii ''whsec'')"
    using u t [of ?up] by blast
  have m: "unat (0x164 :: code_unit) mod 256 = unat (0x64 :: code_unit) mod 256" by simp
  have x: "unhex 0x164 = unhex 0x64" using m t [of "[]"] by blast
  from l n v m x show ?thesis by blast
qed

text \<open>
  Claim C2 as stated fails. Whatever the keyed hash, the correct signature followed by
  \<open>zz\<close> is not hexadecimal, and it is accepted. And the correct signature with U+0162 in
  place of its last digit \<open>b\<close> is not hexadecimal, and it is accepted.
\<close>

theorem verifySignature_accepts_malformed_hex:
  "(\<forall>hmac. \<not> well_formed_hex (sign hmac (ascii ''{}'') (ascii ''whsec'') @ ascii ''zz'')
      \<and> verifySignature hmac (ascii ''{}'')
           (sign hmac (ascii ''{}'') (ascii ''whsec'') @ ascii ''zz'') (ascii ''whsec''))
   \<and> \<not> well_formed_hex ((sign example_hmac (ascii ''{}'') (ascii ''whsec''))[63 := 0x162])
   \<and> verifySignature example_hmac (ascii ''{}'')
        ((sign example_hmac (ascii ''{}'') (ascii ''whsec''))[63 := 0x162]) (ascii ''whsec'')"
proof -
  have z: "from_hex (ascii ''zz'') = []" and w: "\<not> list_all is_hex_unit (ascii ''zz'')"
    by code_simp+
  have a: "\<not> well_formed_hex (sign hmac (ascii ''{}'') (ascii ''whsec'') @ ascii ''zz'')
      \<and> verifySignature hmac (ascii ''{}'')
           (sign hmac (ascii ''{}'') (ascii ''whsec'') @ ascii ''zz'') (ascii ''whsec'')" for hmac
    using z w by (simp add: well_formed_hex_def verifySignature_iff sign_def from_hex_to_hex_append)
  have b1: "\<not> well_formed_hex ((sign example_hmac (ascii ''{}'') (ascii ''whsec''))[63 := 0x162])"
    unfolding example_signature by code_simp
  have b2: "from_hex ((sign example_hmac (ascii ''{}'') (ascii ''whsec''))[63 := 0x162])
              = example_hmac (utf8 (ascii ''whsec'')) (utf8 (ascii ''{}''))"
    unfolding example_signature example_digest by code_simp
  from a b1 b2 show ?thesis by (simp add: verifySignature_iff)
qed

text \<open>
  Claim C3, as the code has it. The signature that \<open>sign\<close> computes is accepted. The
  signature with one code unit replaced is accepted exactly when the new unit is read as
  the same hexadecimal digit: the other letter case of a digit, or a unit with the same
  low byte, is accepted, every other unit is rejected. With that signature, another
  payload or another secret is accepted exactly when the keyed hash of the UTF-8
  encodings is the same. It is accepted whenever its UTF-8 encoding is the same, which
  two strings that differ in an unpaired surrogate have; and when the keyed hash does
  not give the same digest for the two encodings, it is accepted only then.
\<close>

theorem verifySignature_sign:
  "verifySignature hmac payload (sign hmac payload secret) secret
   \<and> (i < length (sign hmac payload secret)
        \<longrightarrow> (verifySignature hmac payload ((sign hmac payload secret)[i := c]) secret
              \<longleftrightarrow> unhex c = unhex (sign hmac payload secret ! i)))
   \<and> (verifySignature hmac payload' (sign hmac payload secret) secret
        \<longleftrightarrow> hmac (utf8 secret) (utf8 payload') = hmac (utf8 secret) (utf8 payload))
   \<and> (verifySignature hmac payload (sign hmac payload secret) secret'
        \<longleftrightarrow> hmac (utf8 secret') (utf8 payload) = hmac (utf8 secret) (utf8 payload))
   \<and> (utf8 payload' = utf8 payload
        \<longrightarrow> verifySignature hmac payload' (sign hmac payload secret) secret)
   \<and> (utf8 secret' = utf8 secret
        \<longrightarrow> verifySignature hmac payload (sign hmac payload secret) secret')
   \<and> ((hmac (utf8 secret) (utf8 payload') = hmac (utf8 secret) (utf8 payload)
          \<longrightarrow> utf8 payload' = utf8 payload)
        \<longrightarrow> (verifySignature hmac payload' (sign hmac payload secret) secret
              \<longleftrightarrow> utf8 payload' = utf8 payload))
   \<and> ((hmac (utf8 secret') (utf8 payload) = hmac (utf8 secret) (utf8 payload)
          \<longrightarrow> utf8 secret' = utf8 secret)
        \<longrightarrow> (verifySignature hmac payload (sign hmac payload secret) secret'
              \<longleftrightarrow> utf8 secret' = utf8 secret))"
  using from_hex_digit_replaced [of i "hmac (utf8 secret) (utf8 payload)" c]
  by (auto simp: verifySignature_iff sign_def from_hex_to_hex)

theorem verifySignature_sign_witness:
  "(63::nat) < length (sign example_hmac (ascii ''{}'') (ascii ''whsec''))
   \<and> unhex 0x63 \<noteq> unhex (sign example_hmac (ascii ''{}'') (ascii ''whsec'') ! 63)
   \<and> \<not> verifySignature example_hmac (ascii ''{}'')
         ((sign example_hmac (ascii ''{}'') (ascii ''whsec''))[63 := 0x63]) (ascii ''whsec'')
   \<and> verifySignature example_hmac (ascii ''{}'')
        (sign example_hmac (ascii ''{}'') (ascii ''whsec'')) (ascii ''whsec'')
   \<and> utf8 (ascii ''{x'') \<noteq> utf8 (ascii ''{}'')
   \<and> \<not> verifySignature example_hmac (ascii ''{x'')
        (sign example_hmac (ascii ''{}'') (ascii ''whsec'')) (ascii ''whsec'')
   \<and> utf8 [0xD801] = utf8 [0xD800]
   \<and> verifySignature example_hmac (ascii ''{}'')
        (sign example_hmac (ascii ''{}'') [0xD800]) [0xD801]"
proof -
  let ?s = "sign example_hmac (ascii ''{}'') (ascii ''whsec'')"
  have l: "(63::nat) < length ?s" unfolding example_signature by code_simp
  have u: "unhex 0x63 \<noteq> unhex (?s ! 63)" unfolding example_signature by code_simp
  have p: "utf8 (ascii ''{x'') \<noteq> utf8 (ascii ''{}'')" by (simp add: utf8_examples)
  have h: "example_hmac (utf8 (ascii ''whsec'')) (utf8 (ascii ''{x''))
             \<noteq> example_hmac (utf8 (ascii ''whsec'')) (utf8 (ascii ''{}''))"
    unfolding utf8_examples by code_simp
  have g: "utf8 [0xD801] = utf8 [0xD800]" by (simp add: utf8_examples)
  note t = verifySignature_sign [of example_hmac "ascii ''{}''" "ascii ''whsec''" 63 "0x63"
             "ascii ''{x''" "ascii ''whsec''"]
  note t2 = verifySignature_sign [of example_hmac "ascii ''{}''" "[0xD800]" 0 0
             "ascii ''{}''" "[0xD801]"]
  have r1: "\<not> verifySignature example_hmac (ascii ''{}'') (?s[63 := 0x63]) (ascii ''whsec'')"
    using t l u by blast
  have r2: "verifySignature example_hmac (ascii ''{}'') ?s (ascii ''whsec'')"
    using t by blast
  have r3: "\<not> verifySignature example_hmac (ascii ''{x'') ?s (ascii ''whsec'')"
    using t h by blast
  have r4: "verifySignature example_hmac (ascii ''{}'')
        (sign example_hmac (ascii ''{}'') [0xD800]) [0xD801]"
    using t2 g by blast
  from l u r1 r2 p r3 g r4 show ?thesis by blast
qed

text \<open>
  Claim C3 as stated fails. Whatever the keyed hash, the signature of the payload that is
  the one code unit U+D800 is accepted for the payload U+D801, and the signature made
  with the secret U+D800 is accepted with the secret U+D801. And the last digit of this
  signature is \<open>b\<close>; with \<open>B\<close> in its place, one byte of the signature has changed and
  it is still accepted.
\<close>

theorem verifySignature_accepts_changed_inputs:
  "([0xD801] :: js_string) \<noteq> [0xD800]
   \<and> (\<forall>hmac. verifySignature hmac [0xD801] (sign hmac [0xD800] (ascii ''whsec'')) (ascii ''whsec'')
         \<and> verifySignature hmac (ascii ''{}'') (sign hmac (ascii ''{}'') [0xD800]) [0xD801])
   \<and> sign example_hmac (ascii ''{}'') (ascii ''whsec'') ! 63 = 0x62
   \<and> (sign example_hmac (ascii ''{}'') (ascii ''whsec''))[63 := 0x42]
        \<noteq> sign example_hmac (ascii ''{}'') (ascii ''whsec'')
   \<and> verifySignature example_hmac (ascii ''{}'')
        ((sign example_hmac (ascii ''{}'') (ascii ''whsec''))[63 := 0x42]) (ascii ''whsec'')"
proof -
  have a: "([0xD801] :: js_string) \<noteq> [0xD800]" by simp
  have b: "verifySignature hmac [0xD801] (sign hmac [0xD800] (ascii ''whsec'')) (ascii ''whsec'')
         \<and> verifySignature hmac (ascii ''{}'') (sign hmac (ascii ''{}'') [0xD800]) [0xD801]" for hmac
    by (simp add: verifySignature_iff sign_def from_hex_to_hex utf8_examples)
  have c1: "sign example_hmac (ascii ''{}'') (ascii ''whsec'') ! 63 = 0x62"
    and c2: "(sign example_hmac (ascii ''{}'') (ascii ''whsec''))[63 := 0x42]
        \<noteq> sign example_hmac (ascii ''{}'') (ascii ''whsec'')"
    unfolding example_signature by code_simp+
  have c3: "from_hex ((sign example_hmac (ascii ''{}'') (ascii ''whsec''))[63 := 0x42])
              = example_hmac (utf8 (ascii ''whsec'')) (utf8 (ascii ''{}''))"
    unfolding example_signature example_digest by code_simp
  from a b c1 c2 c3 show ?thesis by (simp add: verifySignature_iff)
qed

section \<open>Properties of the service\<close>

subsection \<open>Helpers\<close>

lemma getDemoSession_None:
  "extractBearer req = None
     \<or> (\<exists>t. extractBearer req = Some t \<and> map_of (demoSessions st) t = None)
   \<Longrightarrow> getDemoSession req st = None"
  by (auto simp: getDemoSession_def)

lemma getDemoSession_Some:
  "getDemoSession req st = Some session \<Longrightarrow>
     \<exists>t. extractBearer req = Some t \<and> t \<noteq> [] \<and> map_of (demoSessions st) t = Some session"
  by (auto simp: getDemoSession_def split: option.splits if_splits)




subsection \<open>The shape of generated identifiers\<close>

lemma dash_not_hex: "\<not> is_hex_digit (CHR ''-'')"
  by (simp add: is_hex_digit_def)

lemma shaped_strip:
  "list_all2 shape_ok t u \<Longrightarrow>
     list_all is_hex_digit (strip_dashes u)
     \<and> length (strip_dashes u) = length (strip_dashes t)"
proof (induction rule: list_all2_induct)
  case Nil
  then show ?case by (simp add: strip_dashes_def)
next
  case (Cons x xs y ys)
  then show ?case
    using dash_not_hex by (auto simp: strip_dashes_def shape_ok_def split: if_splits)
qed

lemma uuid_stripped:
  assumes "is_uuid u"
  shows "list_all is_hex_digit (strip_dashes u)" and "length (strip_dashes u) = 32"
proof -
  from assms have s: "list_all2 shape_ok uuid_shape u" by (simp add: is_uuid_def)
  from shaped_strip [OF s] show "list_all is_hex_digit (strip_dashes u)" by simp
  have "length (strip_dashes uuid_shape) = 32" by (simp add: strip_dashes_def uuid_shape_def)
  with shaped_strip [OF s] show "length (strip_dashes u) = 32" by simp
qed

lemma lower_usd: "toLowerCase f ''usd'' = ''usd''"
  by (simp add: toLowerCase_def is_ascii_def ascii_lower_def)

lemma lower_ascii: "list_all is_ascii s \<Longrightarrow> toLowerCase f s = map ascii_lower s"
  by (simp add: toLowerCase_def)

lemma shaped_strip_inj:
  "list_all2 shape_ok t u \<Longrightarrow> list_all2 shape_ok t v \<Longrightarrow>
     strip_dashes u = strip_dashes v \<Longrightarrow> u = v"
proof (induction t arbitrary: u v)
  case Nil
  then show ?case by simp
next
  case (Cons c t)
  from Cons.prems(1) obtain x u' where u: "u = x # u'" "shape_ok c x" "list_all2 shape_ok t u'"
    by (auto simp: list_all2_Cons1)
  from Cons.prems(2) obtain y v' where v: "v = y # v'" "shape_ok c y" "list_all2 shape_ok t v'"
    by (auto simp: list_all2_Cons1)
  show ?case
  proof (cases "c = CHR ''-''")
    case True
    with u v Cons.prems(3) have "strip_dashes u' = strip_dashes v'" and "x = y"
      by (simp_all add: shape_ok_def strip_dashes_def)
    with Cons.IH [OF u(3) v(3)] u v show ?thesis by simp
  next
    case False
    with u v have "x \<noteq> CHR ''-''" and "y \<noteq> CHR ''-''"
      using dash_not_hex by (auto simp: shape_ok_def)
    with u v Cons.prems(3) have "strip_dashes u' = strip_dashes v'" and "x = y"
      by (simp_all add: strip_dashes_def)
    with Cons.IH [OF u(3) v(3)] u v show ?thesis by simp
  qed
qed

lemma uuid_strip_inj: "is_uuid u \<Longrightarrow> is_uuid v \<Longrightarrow> strip_dashes u = strip_dashes v \<Longrightarrow> u = v"
  unfolding is_uuid_def by (rule shaped_strip_inj)

subsection \<open>An invariant of the session registry\<close>

lemma set_map_entry:
  "snd ` set (AList.map_entry k f al) \<subseteq> snd ` set al \<union> f ` snd ` set al"
  by (induction al) auto

lemma set_update:
  "snd ` set (AList.update k v al) \<subseteq> insert v (snd ` set al)"
  by (induction al) auto

text \<open>What one request does to the registry and to the count of UUIDs drawn.\<close>

lemma handle_step:
  assumes "uuid rt = gen" and "handle cfg rt r req st = Inr out" and "n = uuid_calls st"
  shows "(demoSessions (final out) = demoSessions st \<and> uuid_calls (final out) = n)
       \<or> (\<exists>k f. demoSessions (final out) = AList.map_entry k f (demoSessions st)
              \<and> n < uuid_calls (final out)
              \<and> (\<forall>s. apiKey (f s) = apiKey s
                      \<or> apiKey (f s) = Some (''pk_demo_'' @ strip_dashes (gen n))))
       \<or> (\<exists>s. demoSessions (final out) = AList.update (gen n) s (demoSessions st)
              \<and> uuid_calls (final out) = Suc n \<and> apiKey s = None)"
proof (cases r)
  case GET_health
  with assms have "out = get_health cfg rt req st" by simp
  with assms show ?thesis by (simp add: get_health_def)
next
  case POST_auth_login
  with assms have "out = post_auth_login cfg rt req st" by simp
  with assms show ?thesis
    by (auto simp: post_auth_login_def Let_def split: option.splits)
next
  case POST_auth_forward
  with assms have "out = post_auth_forward cfg rt req st" by simp
  with assms show ?thesis
    by (auto simp: post_auth_forward_def Let_def split: option.splits)
next
  case POST_api_keys_create
  with assms have o: "out = post_api_keys_create cfg rt req st" by simp
  show ?thesis
  proof (cases "IS_SANDBOX cfg")
    case True
    show ?thesis
    proof (cases "requireDemoSession req st")
      case (Inl a)
      with True o assms show ?thesis by (simp add: post_api_keys_create_def)
    next
      case (Inr b)
      with True o assms have
        "demoSessions (final out) = AList.map_entry (session_key req)
            (\<lambda>s. s\<lparr> apiKey := Some (''pk_demo_'' @ strip_dashes (gen n)) \<rparr>) (demoSessions st)"
        and "n < uuid_calls (final out)"
        by (simp_all add: post_api_keys_create_def Let_def mutate_session_def)
      then show ?thesis by fastforce
    qed
  next
    case False
    with o assms show ?thesis
      by (auto simp: post_api_keys_create_def Let_def backendPost_def store_key_def
               split: sum.splits option.splits)
  qed
next
  case POST_api_keys_rotate
  with assms have o: "out = post_api_keys_rotate cfg rt req st" by simp
  show ?thesis
  proof (cases "IS_SANDBOX cfg")
    case True
    show ?thesis
    proof (cases "requireDemoSession req st")
      case (Inl a)
      with True o assms show ?thesis by (simp add: post_api_keys_rotate_def)
    next
      case (Inr b)
      with True o assms have
        "demoSessions (final out) = AList.map_entry (session_key req)
            (\<lambda>s. s\<lparr> apiKey := Some (''pk_demo_'' @ strip_dashes (gen n)) \<rparr>) (demoSessions st)"
        and "n < uuid_calls (final out)"
        by (simp_all add: post_api_keys_rotate_def Let_def mutate_session_def)
      then show ?thesis by fastforce
    qed
  next
    case False
    with o assms show ?thesis
      by (auto simp: post_api_keys_rotate_def Let_def backendPost_def store_key_def
               split: sum.splits option.splits)
  qed
next
  case POST_checkout_demo
  with assms have o: "post_checkout_demo cfg rt req st = Inr out" by simp
  show ?thesis
  proof (cases "IS_SANDBOX cfg")
    case True
    show ?thesis
    proof (cases "requireDemoSession req st")
      case (Inl a)
      with True o assms show ?thesis by (auto simp: post_checkout_demo_def)
    next
      case (Inr b)
      with True o assms have
        "\<exists>c. demoSessions (final out) = AList.map_entry (session_key req)
            (\<lambda>s. s\<lparr> checkouts := checkouts s @ [c] \<rparr>) (demoSessions st)"
        and "n < uuid_calls (final out)"
        by (auto simp: post_checkout_demo_def Let_def mutate_session_def split: sum.splits)
      then show ?thesis by fastforce
    qed
  next
    case False
    with o assms show ?thesis
      by (auto simp: post_checkout_demo_def Let_def backendPost_def split: sum.splits)
  qed
next
  case POST_webhooks_create
  with assms have o: "out = post_webhooks_create cfg rt req st" by simp
  show ?thesis
  proof (cases "IS_SANDBOX cfg")
    case True
    show ?thesis
    proof (cases "requireDemoSession req st")
      case (Inl a)
      with True o assms show ?thesis
        by (simp add: post_webhooks_create_def Let_def)
    next
      case (Inr b)
      with True o assms have
        "\<exists>w. demoSessions (final out) = AList.map_entry (session_key req)
            (\<lambda>s. s\<lparr> webhooks := webhooks s @ [w] \<rparr>) (demoSessions st)"
        and "n < uuid_calls (final out)"
        by (auto simp: post_webhooks_create_def Let_def mutate_session_def)
      then show ?thesis by fastforce
    qed
  next
    case False
    with o assms show ?thesis
      by (auto simp: post_webhooks_create_def Let_def backendPost_def split: sum.splits)
  qed
next
  case GET_session
  with assms have "out = get_session cfg rt req st" by simp
  with assms show ?thesis
    by (auto simp: get_session_def split: sum.splits)
next
  case GET_sessions
  with assms have "out = get_sessions cfg rt req st" by simp
  with assms show ?thesis
    by (auto simp: get_sessions_def Let_def)
qed

lemma registry_inv_start: "registry_inv gen initial_state"
  by (simp add: registry_inv_def initial_state_def)

lemma registry_invI:
  assumes "\<And>t. t \<in> fst ` set (demoSessions st) \<Longrightarrow> \<exists>i < uuid_calls st. t = gen i"
    and "\<And>s k. s \<in> snd ` set (demoSessions st) \<Longrightarrow> apiKey s = Some k \<Longrightarrow>
           \<exists>i < uuid_calls st. k = ''pk_demo_'' @ strip_dashes (gen i)"
  shows "registry_inv gen st"
  unfolding registry_inv_def using assms by blast

lemma registry_inv_keys:
  "registry_inv gen st \<Longrightarrow> t \<in> fst ` set (demoSessions st) \<Longrightarrow> \<exists>i < uuid_calls st. t = gen i"
  unfolding registry_inv_def by blast

lemma registry_inv_vals:
  "registry_inv gen st \<Longrightarrow> s \<in> snd ` set (demoSessions st) \<Longrightarrow> apiKey s = Some k \<Longrightarrow>
     \<exists>i < uuid_calls st. k = ''pk_demo_'' @ strip_dashes (gen i)"
  unfolding registry_inv_def by blast

lemma registry_inv_step:
  assumes inv: "registry_inv gen st" and rt: "uuid rt = gen"
    and h: "handle cfg rt r req st = Inr out"
  shows "registry_inv gen (final out)"
proof -
  define st' where "st' = final out"
  define n where "n = uuid_calls st"
  define key where "key i = ''pk_demo_'' @ strip_dashes (gen i)" for i
  have keys: "\<exists>i < n. t = gen i" if "t \<in> fst ` set (demoSessions st)" for t
    using registry_inv_keys [OF inv that] by (simp add: n_def)
  have vals: "\<exists>i < n. k = key i" if "s \<in> snd ` set (demoSessions st)" "apiKey s = Some k" for s k
    using registry_inv_vals [OF inv that] by (simp add: n_def key_def)
  have step: "(demoSessions st' = demoSessions st \<and> uuid_calls st' = n)
       \<or> (\<exists>k f. demoSessions st' = AList.map_entry k f (demoSessions st) \<and> n < uuid_calls st'
              \<and> (\<forall>s. apiKey (f s) = apiKey s \<or> apiKey (f s) = Some (key n)))
       \<or> (\<exists>s. demoSessions st' = AList.update (gen n) s (demoSessions st)
              \<and> uuid_calls st' = Suc n \<and> apiKey s = None)"
    unfolding key_def st'_def by (rule handle_step [OF rt h n_def])
  have "registry_inv gen st'"
    using step
  proof (elim disjE exE conjE)
    assume "demoSessions st' = demoSessions st" and "uuid_calls st' = n"
    with inv show ?thesis by (simp add: registry_inv_def n_def)
  next
    fix k f
    assume e: "demoSessions st' = AList.map_entry k f (demoSessions st)"
      and lt: "n < uuid_calls st'"
      and f: "\<forall>s. apiKey (f s) = apiKey s \<or> apiKey (f s) = Some (key n)"
    show ?thesis
    proof (rule registry_invI)
      fix t assume "t \<in> fst ` set (demoSessions st')"
      then have "t \<in> fst ` set (demoSessions st)" by (simp add: e AList.dom_map_entry)
      from keys [OF this] obtain i where "i < n" "t = gen i" by blast
      with lt show "\<exists>i < uuid_calls st'. t = gen i" by (intro exI [of _ i]) simp
    next
      fix s' k' assume s': "s' \<in> snd ` set (demoSessions st')" and k': "apiKey s' = Some k'"
      from s' set_map_entry [of k f "demoSessions st"]
      have "s' \<in> snd ` set (demoSessions st) \<or> (\<exists>s \<in> snd ` set (demoSessions st). s' = f s)"
        unfolding e by blast
      then have "\<exists>i < uuid_calls st'. k' = key i"
      proof (elim disjE bexE)
        assume "s' \<in> snd ` set (demoSessions st)"
        from vals [OF this k'] obtain i where "i < n" "k' = key i" by blast
        with lt show ?thesis by (intro exI [of _ i]) simp
      next
        fix s assume s: "s \<in> snd ` set (demoSessions st)" and eq: "s' = f s"
        from f have "apiKey (f s) = apiKey s \<or> apiKey (f s) = Some (key n)" by (rule spec)
        then show ?thesis
        proof
          assume "apiKey (f s) = apiKey s"
          with eq k' have "apiKey s = Some k'" by simp
          from vals [OF s this] obtain i where "i < n" "k' = key i" by blast
          with lt show ?thesis by (intro exI [of _ i]) simp
        next
          assume "apiKey (f s) = Some (key n)"
          with eq k' have "k' = key n" by simp
          with lt show ?thesis by (intro exI [of _ n]) simp
        qed
      qed
      then show "\<exists>i < uuid_calls st'. k' = ''pk_demo_'' @ strip_dashes (gen i)"
        by (simp add: key_def)
    qed
  next
    fix s
    assume e: "demoSessions st' = AList.update (gen n) s (demoSessions st)"
      and c: "uuid_calls st' = Suc n" and none: "apiKey s = None"
    show ?thesis
    proof (rule registry_invI)
      fix t assume "t \<in> fst ` set (demoSessions st')"
      then have "t = gen n \<or> t \<in> fst ` set (demoSessions st)"
        by (auto simp: e AList.dom_update)
      then show "\<exists>i < uuid_calls st'. t = gen i"
      proof
        assume "t = gen n"
        then show ?thesis by (intro exI [of _ n]) (simp add: c)
      next
        assume "t \<in> fst ` set (demoSessions st)"
        from keys [OF this] obtain i where "i < n" "t = gen i" by blast
        then show ?thesis by (intro exI [of _ i]) (simp add: c)
      qed
    next
      fix s' k' assume s': "s' \<in> snd ` set (demoSessions st')" and k': "apiKey s' = Some k'"
      from s' set_update [of "gen n" s "demoSessions st"]
      have "s' = s \<or> s' \<in> snd ` set (demoSessions st)" unfolding e by blast
      with none k' have "s' \<in> snd ` set (demoSessions st)" by auto
      from vals [OF this k'] obtain i where "i < n" "k' = key i" by blast
      then show "\<exists>i < uuid_calls st'. k' = ''pk_demo_'' @ strip_dashes (gen i)"
        by (intro exI [of _ i]) (simp add: c key_def)
    qed
  qed
  then show ?thesis by (simp add: st'_def)
qed

lemma reachable_registry_inv: "reachable cfg gen st \<Longrightarrow> registry_inv gen st"
  by (induction rule: reachable.induct) (auto simp: registry_inv_start intro: registry_inv_step)

subsection \<open>Concrete states\<close>

lemma logged_in_eval: "logged_in = \<lparr> demoSessions = [(''00000000-0000-4000-8000-000000000000'',
    \<lparr> token = ''00000000-0000-4000-8000-000000000000'', session_email = VString ''demo@x.io'',
      apiKey = None, checkouts = [], webhooks = [], createdAt = ''2026-01-01T00:00:00.000Z'' \<rparr>)],
    prodState = \<lparr> prod_jwt = JNull, prod_apiKey = JNull \<rparr>, uuid_calls = 1 \<rparr>"
  by (simp add: logged_in_def post_auth_login_def sandbox_config_def example_runtime_def
        login_request_def empty_body_def initial_state_def example_uuid_def Let_def)

lemma with_key_eval: "with_key = \<lparr> demoSessions = [(''00000000-0000-4000-8000-000000000000'',
    \<lparr> token = ''00000000-0000-4000-8000-000000000000'', session_email = VString ''demo@x.io'',
      apiKey = Some ''pk_demo_11111111111141118111111111111111'',
      checkouts = [], webhooks = [], createdAt = ''2026-01-01T00:00:00.000Z'' \<rparr>)],
    prodState = \<lparr> prod_jwt = JNull, prod_apiKey = JNull \<rparr>, uuid_calls = 2 \<rparr>"
  by (simp add: with_key_def logged_in_eval post_api_keys_create_def sandbox_config_def
        example_runtime_def bearer_request_def empty_body_def example_uuid_def
        requireDemoSession_def getDemoSession_def extractBearer_def mutate_session_def
        session_key_def strip_dashes_def Let_def)

lemma repeated_login_eval:
  "repeated_login = \<lparr> demoSessions = [(''00000000-0000-4000-8000-000000000000'',
    \<lparr> token = ''00000000-0000-4000-8000-000000000000'', session_email = VString ''demo@x.io'',
      apiKey = None, checkouts = [], webhooks = [], createdAt = ''2026-01-01T00:00:00.000Z'' \<rparr>)],
    prodState = \<lparr> prod_jwt = JNull, prod_apiKey = JNull \<rparr>, uuid_calls = 1 \<rparr>"
  by (simp add: repeated_login_def post_auth_login_def sandbox_config_def repeating_runtime_def
        example_runtime_def login_request_def empty_body_def initial_state_def
        repeating_uuid_def Let_def)

lemma repeated_key_eval:
  "repeated_key = \<lparr> demoSessions = [(''00000000-0000-4000-8000-000000000000'',
    \<lparr> token = ''00000000-0000-4000-8000-000000000000'', session_email = VString ''demo@x.io'',
      apiKey = Some ''pk_demo_00000000000040008000000000000000'',
      checkouts = [], webhooks = [], createdAt = ''2026-01-01T00:00:00.000Z'' \<rparr>)],
    prodState = \<lparr> prod_jwt = JNull, prod_apiKey = JNull \<rparr>, uuid_calls = 2 \<rparr>"
  by (simp add: repeated_key_def repeated_login_eval post_api_keys_create_def sandbox_config_def
        repeating_runtime_def example_runtime_def bearer_request_def empty_body_def
        repeating_uuid_def requireDemoSession_def getDemoSession_def extractBearer_def
        mutate_session_def session_key_def strip_dashes_def Let_def)

lemma reachable_logged_in: "reachable sandbox_config example_uuid logged_in"
  unfolding logged_in_def
  by (rule reachable.serve [OF reachable.start,
        where rt = "example_runtime (legacy_backend JNull)" and r = POST_auth_login
          and req = "login_request ''demo@x.io''"])
     (simp_all add: example_runtime_def)

lemma reachable_with_key: "reachable sandbox_config example_uuid with_key"
  unfolding with_key_def
  by (rule reachable.serve [OF reachable_logged_in,
        where rt = "example_runtime (legacy_backend JNull)" and r = POST_api_keys_create
          and req = "bearer_request ''00000000-0000-4000-8000-000000000000''"])
     (simp_all add: example_runtime_def)

lemma reachable_repeated_login: "reachable sandbox_config repeating_uuid repeated_login"
  unfolding repeated_login_def
  by (rule reachable.serve [OF reachable.start,
        where rt = repeating_runtime and r = POST_auth_login
          and req = "login_request ''demo@x.io''"])
     (simp_all add: repeating_runtime_def)

lemma reachable_repeated_key: "reachable sandbox_config repeating_uuid repeated_key"
  unfolding repeated_key_def
  by (rule reachable.serve [OF reachable_repeated_login,
        where rt = repeating_runtime and r = POST_api_keys_create
          and req = "bearer_request ''00000000-0000-4000-8000-000000000000''"])
     (simp_all add: repeating_runtime_def)

lemma example_uuid_shape: "is_uuid (example_uuid i)"
  by (simp add: example_uuid_def is_uuid_def uuid_shape_def shape_ok_def is_hex_digit_def)

lemma repeating_uuid_shape: "is_uuid (repeating_uuid i)"
  by (simp add: repeating_uuid_def is_uuid_def uuid_shape_def shape_ok_def is_hex_digit_def)


subsection \<open>Key issuance in production mode\<close>




subsection \<open>Login in sandbox mode\<close>

text \<open>
  Claim C4, as the code has it. In sandbox mode, in every reachable state, POST /auth/login
  answers 400 exactly when the email is absent or falsy (\<open>null\<close>, \<open>false\<close>, \<open>0\<close> or the
  empty string), and then changes nothing. For every other email (the password is never
  read) it answers 200 with the value that \<open>randomUUID()\<close> returned as the token, and
  afterwards the registry holds under that token a session with that email, no API key,
  no checkouts and no webhooks, every other token resolving as before. The handler does
  not compare the token with the registry: no session is stored under the token
  beforehand provided \<open>randomUUID()\<close> returned a value it had not returned before.
\<close>

theorem sandbox_login:
  assumes "IS_SANDBOX cfg" and "reachable cfg gen st" and "uuid rt = gen"
    and "out = post_auth_login cfg rt req st"
    and "tok = gen (uuid_calls st)"
  shows "(status (reply out) = 400
            \<longleftrightarrow> email (body req) = None \<or> (\<exists>e. email (body req) = Some e \<and> \<not> js_truthy e))
       \<and> (\<forall>s. email (body req) = Some (VString s) \<longrightarrow> (status (reply out) = 400 \<longleftrightarrow> s = []))
       \<and> (status (reply out) = 400 \<longrightarrow> final out = st)
       \<and> (\<forall>e. email (body req) = Some e \<and> js_truthy e \<longrightarrow>
             status (reply out) = 200
           \<and> get_prop (sent (reply out)) ''token'' = Some (JString tok)
           \<and> map_of (demoSessions (final out)) tok
               = Some \<lparr> token = tok, session_email = e, apiKey = None, checkouts = [],
                        webhooks = [], createdAt = now rt \<rparr>
           \<and> (\<forall>t'. t' \<noteq> tok \<longrightarrow>
                 map_of (demoSessions (final out)) t' = map_of (demoSessions st) t')
           \<and> prodState (final out) = prodState st)
       \<and> ((\<forall>i < uuid_calls st. gen i \<noteq> tok) \<longrightarrow> tok \<notin> fst ` set (demoSessions st))"
proof -
  have fresh: "tok \<notin> fst ` set (demoSessions st)" if d: "\<forall>i < uuid_calls st. gen i \<noteq> tok"
  proof
    assume "tok \<in> fst ` set (demoSessions st)"
    from registry_inv_keys [OF reachable_registry_inv [OF assms(2)] this]
    obtain i where "i < uuid_calls st" and "tok = gen i" by blast
    with d show False by auto
  qed
  have main: "(status (reply out) = 400
            \<longleftrightarrow> email (body req) = None \<or> (\<exists>e. email (body req) = Some e \<and> \<not> js_truthy e))
       \<and> (\<forall>s. email (body req) = Some (VString s) \<longrightarrow> (status (reply out) = 400 \<longleftrightarrow> s = []))
       \<and> (status (reply out) = 400 \<longrightarrow> final out = st)
       \<and> (\<forall>e. email (body req) = Some e \<and> js_truthy e \<longrightarrow>
             status (reply out) = 200
           \<and> get_prop (sent (reply out)) ''token'' = Some (JString tok)
           \<and> map_of (demoSessions (final out)) tok
               = Some \<lparr> token = tok, session_email = e, apiKey = None, checkouts = [],
                        webhooks = [], createdAt = now rt \<rparr>
           \<and> (\<forall>t'. t' \<noteq> tok \<longrightarrow>
                 map_of (demoSessions (final out)) t' = map_of (demoSessions st) t')
           \<and> prodState (final out) = prodState st)"
    unfolding assms(4) using assms(1,3)
    by (auto simp: post_auth_login_def Let_def assms(5) AList.update_conv' split: option.splits)
  from main fresh show ?thesis by blast
qed

theorem sandbox_login_witness:
  "IS_SANDBOX sandbox_config \<and> reachable sandbox_config example_uuid logged_in
   \<and> status (reply (post_auth_login sandbox_config (example_runtime (legacy_backend JNull))
                      (login_request ''second@x.io'') logged_in)) = 200
   \<and> get_prop (sent (reply (post_auth_login sandbox_config (example_runtime (legacy_backend JNull))
                      (login_request ''second@x.io'') logged_in))) ''token''
       = Some (JString ''11111111-1111-4111-8111-111111111111'')
   \<and> ''11111111-1111-4111-8111-111111111111'' \<notin> fst ` set (demoSessions logged_in)
   \<and> map_of (demoSessions (final (post_auth_login sandbox_config
                 (example_runtime (legacy_backend JNull)) (login_request ''second@x.io'') logged_in)))
         ''11111111-1111-4111-8111-111111111111''
       = Some \<lparr> token = ''11111111-1111-4111-8111-111111111111'',
                session_email = VString ''second@x.io'',
                apiKey = None, checkouts = [], webhooks = [],
                createdAt = ''2026-01-01T00:00:00.000Z'' \<rparr>
   \<and> status (reply (post_auth_login sandbox_config (example_runtime (legacy_backend JNull))
                      (login_request []) logged_in)) = 400
   \<and> final (post_auth_login sandbox_config (example_runtime (legacy_backend JNull))
              (login_request []) logged_in) = logged_in"
proof -
  let ?rt = "example_runtime (legacy_backend JNull)"
  have s: "IS_SANDBOX sandbox_config" by (simp add: sandbox_config_def)
  have u: "uuid ?rt = example_uuid" by (simp add: example_runtime_def)
  have n: "example_uuid (uuid_calls logged_in) = ''11111111-1111-4111-8111-111111111111''"
    by (simp add: logged_in_eval example_uuid_def)
  have d: "\<forall>i < uuid_calls logged_in. example_uuid i \<noteq> ''11111111-1111-4111-8111-111111111111''"
    by (simp add: logged_in_eval example_uuid_def)
  have now: "now ?rt = ''2026-01-01T00:00:00.000Z''" by (simp add: example_runtime_def)
  have e1: "email (body (login_request ''second@x.io'')) = Some (VString ''second@x.io'')"
    and e2: "email (body (login_request [])) = Some (VString [])"
    by (simp_all add: login_request_def empty_body_def)
  note a = sandbox_login [OF s reachable_logged_in u refl refl,
                          of "login_request ''second@x.io''", unfolded n]
  note b = sandbox_login [OF s reachable_logged_in u refl refl, of "login_request []"]
  from a e1 d now have
    "status (reply (post_auth_login sandbox_config ?rt (login_request ''second@x.io'') logged_in)) = 200"
    "get_prop (sent (reply (post_auth_login sandbox_config ?rt
        (login_request ''second@x.io'') logged_in))) ''token''
       = Some (JString ''11111111-1111-4111-8111-111111111111'')"
    "''11111111-1111-4111-8111-111111111111'' \<notin> fst ` set (demoSessions logged_in)"
    "map_of (demoSessions (final (post_auth_login sandbox_config ?rt
        (login_request ''second@x.io'') logged_in))) ''11111111-1111-4111-8111-111111111111''
       = Some \<lparr> token = ''11111111-1111-4111-8111-111111111111'',
                session_email = VString ''second@x.io'',
                apiKey = None, checkouts = [], webhooks = [],
                createdAt = ''2026-01-01T00:00:00.000Z'' \<rparr>"
    by simp_all
  moreover from b e2 have
    "status (reply (post_auth_login sandbox_config ?rt (login_request []) logged_in)) = 400"
    "final (post_auth_login sandbox_config ?rt (login_request []) logged_in) = logged_in"
    by simp_all
  ultimately show ?thesis using s reachable_logged_in by simp
qed

text \<open>
  Claim C4 as stated fails. With a \<open>randomUUID()\<close> that returns the same well-formed value
  twice, a first login stores a session under that value, and a second login, with
  another email, answers with the same token, which the registry had issued, and puts
  its session in the place of the first. And a login with the email \<open>0\<close>, which is
  neither absent nor an empty string, is answered with 400.
\<close>

theorem login_reissues_stored_token:
  "reachable sandbox_config repeating_uuid repeated_login
   \<and> is_uuid (repeating_uuid 0) \<and> is_uuid (repeating_uuid 1)
   \<and> get_prop (sent (reply (post_auth_login sandbox_config repeating_runtime
                               (login_request ''demo@x.io'') initial_state))) ''token''
       = Some (JString ''00000000-0000-4000-8000-000000000000'')
   \<and> repeated_login = final (post_auth_login sandbox_config repeating_runtime
                               (login_request ''demo@x.io'') initial_state)
   \<and> ''00000000-0000-4000-8000-000000000000'' \<in> fst ` set (demoSessions repeated_login)
   \<and> map_option session_email
        (map_of (demoSessions repeated_login) ''00000000-0000-4000-8000-000000000000'')
       = Some (VString ''demo@x.io'')
   \<and> status (reply (post_auth_login sandbox_config repeating_runtime
                      (login_request ''second@x.io'') repeated_login)) = 200
   \<and> get_prop (sent (reply (post_auth_login sandbox_config repeating_runtime
                               (login_request ''second@x.io'') repeated_login))) ''token''
       = Some (JString ''00000000-0000-4000-8000-000000000000'')
   \<and> map_option session_email
        (map_of (demoSessions (final (post_auth_login sandbox_config repeating_runtime
                                        (login_request ''second@x.io'') repeated_login)))
           ''00000000-0000-4000-8000-000000000000'')
       = Some (VString ''second@x.io'')
   \<and> email (body (blank_request\<lparr> body := empty_body\<lparr> email := Some (VNumber (Finite 0)) \<rparr> \<rparr>))
       = Some (VNumber (Finite 0))
   \<and> status (reply (post_auth_login sandbox_config repeating_runtime
                      (blank_request\<lparr> body := empty_body\<lparr> email := Some (VNumber (Finite 0)) \<rparr> \<rparr>)
                      initial_state)) = 400"
proof -
  have a: "get_prop (sent (reply (post_auth_login sandbox_config repeating_runtime
                               (login_request ''demo@x.io'') initial_state))) ''token''
       = Some (JString ''00000000-0000-4000-8000-000000000000'')"
    by (simp add: post_auth_login_def sandbox_config_def repeating_runtime_def
          example_runtime_def login_request_def empty_body_def initial_state_def
          repeating_uuid_def Let_def)
  have b: "''00000000-0000-4000-8000-000000000000'' \<in> fst ` set (demoSessions repeated_login)"
    "map_option session_email
        (map_of (demoSessions repeated_login) ''00000000-0000-4000-8000-000000000000'')
       = Some (VString ''demo@x.io'')"
    by (simp_all add: repeated_login_eval)
  have c: "status (reply (post_auth_login sandbox_config repeating_runtime
                      (login_request ''second@x.io'') repeated_login)) = 200"
    "get_prop (sent (reply (post_auth_login sandbox_config repeating_runtime
                               (login_request ''second@x.io'') repeated_login))) ''token''
       = Some (JString ''00000000-0000-4000-8000-000000000000'')"
    "map_option session_email
        (map_of (demoSessions (final (post_auth_login sandbox_config repeating_runtime
                                        (login_request ''second@x.io'') repeated_login)))
           ''00000000-0000-4000-8000-000000000000'')
       = Some (VString ''second@x.io'')"
    by (simp_all add: repeated_login_eval post_auth_login_def sandbox_config_def
          repeating_runtime_def example_runtime_def login_request_def empty_body_def
          repeating_uuid_def Let_def)
  have d: "status (reply (post_auth_login sandbox_config repeating_runtime
                      (blank_request\<lparr> body := empty_body\<lparr> email := Some (VNumber (Finite 0)) \<rparr> \<rparr>)
                      initial_state)) = 400"
    by (simp add: post_auth_login_def sandbox_config_def blank_request_def empty_body_def)
  from a b c d reachable_repeated_login repeating_uuid_shape show ?thesis
    by (simp add: repeated_login_def [symmetric])
qed

subsection \<open>Key rotation in sandbox mode\<close>

text \<open>
  Claim C5, as the code has it. In sandbox mode, in every reachable state, for a session
  that holds an API key, POST /api-keys/rotate stores in the session the key made of
  \<open>pk_demo_\<close> and the digits of the value \<open>randomUUID()\<close> returns. The old key was made
  from an earlier such value, and the new key is the old one exactly when the two values
  are the same; so the new key differs from the old one provided \<open>randomUUID()\<close> returns
  a value it had not returned before. The \<open>old_key\<close> of the response is the first 15
  characters of the old key, a strict prefix of it, followed by three dots; it is never
  the old key, and it is not a prefix of the old key.
\<close>

theorem sandbox_rotate:
  assumes "IS_SANDBOX cfg" and "reachable cfg gen st" and "uuid rt = gen"
    and "\<forall>i \<le> uuid_calls st. is_uuid (gen i)"
    and "extractBearer req = Some t"
    and "getDemoSession req st = Some session"
    and "apiKey session = Some old"
    and "out = post_api_keys_rotate cfg rt req st"
    and "new = ''pk_demo_'' @ strip_dashes (gen (uuid_calls st))"
  shows "map_of (demoSessions (final out)) t = Some (session\<lparr> apiKey := Some new \<rparr>)
       \<and> get_prop (sent (reply out)) ''key'' = Some (JString new)
       \<and> (\<exists>i < uuid_calls st. old = ''pk_demo_'' @ strip_dashes (gen i)
             \<and> (new = old \<longleftrightarrow> gen (uuid_calls st) = gen i))
       \<and> ((\<forall>i < uuid_calls st. gen i \<noteq> gen (uuid_calls st)) \<longrightarrow> new \<noteq> old)
       \<and> get_prop (sent (reply out)) ''old_key'' = Some (JString (take 15 old @ ''...''))
       \<and> strict_prefix (take 15 old) old
       \<and> take 15 old @ ''...'' \<noteq> old
       \<and> \<not> prefix (take 15 old @ ''...'') old"
proof -
  define n where "n = uuid_calls st"
  from assms(5,6) have m: "map_of (demoSessions st) t = Some session"
    by (auto dest: getDemoSession_Some)
  then have "session \<in> snd ` set (demoSessions st)"
    by (force dest: map_of_SomeD)
  from registry_inv_vals [OF reachable_registry_inv [OF assms(2)] this assms(7)]
  obtain i where i: "i < n" and old: "old = ''pk_demo_'' @ strip_dashes (gen i)"
    unfolding n_def by blast
  from i assms(4) have ui: "is_uuid (gen i)" and un: "is_uuid (gen n)" by (simp_all add: n_def)
  have same: "new = old \<longleftrightarrow> gen n = gen i"
    using uuid_strip_inj [OF un ui] by (auto simp: assms(9) old n_def)
  have origin: "\<exists>i < uuid_calls st. old = ''pk_demo_'' @ strip_dashes (gen i)
             \<and> (new = old \<longleftrightarrow> gen (uuid_calls st) = gen i)"
    using i old same unfolding n_def by blast
  have ne: "(\<forall>i < uuid_calls st. gen i \<noteq> gen (uuid_calls st)) \<longrightarrow> new \<noteq> old"
    using i same unfolding n_def by auto
  have len: "length old = 40" and hex: "list_all is_hex_digit (strip_dashes (gen i))"
    using uuid_stripped [OF ui] by (simp_all add: old)
  have nonempty: "old \<noteq> []" using len by auto
  have sp: "strict_prefix (take 15 old) old"
    using len by (auto simp: strict_prefix_def take_is_prefix)
  have neq: "take 15 old @ ''...'' \<noteq> old"
  proof
    assume "take 15 old @ ''...'' = old"
    then have "length (take 15 old @ ''...'') = length old" by simp
    with len show False by simp
  qed
  have np: "\<not> prefix (take 15 old @ ''...'') old"
  proof
    assume "prefix (take 15 old @ ''...'') old"
    then obtain rest where "old = (take 15 old @ ''...'') @ rest" by (auto simp: prefix_def)
    then have "old ! 15 = ((take 15 old @ ''...'') @ rest) ! 15" by simp
    also have "\<dots> = CHR ''.''" using len by (simp add: nth_append)
    finally have dot: "old ! 15 = CHR ''.''" .
    have "old ! 15 = strip_dashes (gen i) ! 7" by (simp add: old nth_append)
    moreover have "is_hex_digit (strip_dashes (gen i) ! 7)"
      using hex uuid_stripped(2) [OF ui] by (simp add: list_all_length)
    ultimately have "is_hex_digit (CHR ''.'')" using dot by simp
    then show False by (simp add: is_hex_digit_def)
  qed
  have r: "requireDemoSession req st = Inr session"
    using assms(6) by (simp add: requireDemoSession_def)
  have k: "session_key req = t" using assms(5) by (simp add: session_key_def)
  have p: "preview (Some old) = JString (take 15 old @ ''...'')"
    using nonempty by (simp add: preview_def)
  have "map_of (demoSessions (final out)) t = Some (session\<lparr> apiKey := Some new \<rparr>)"
    and "get_prop (sent (reply out)) ''key'' = Some (JString new)"
    and "get_prop (sent (reply out)) ''old_key'' = Some (JString (take 15 old @ ''...''))"
    unfolding assms(8) using assms(1,3) r m
    by (simp_all add: post_api_keys_rotate_def Let_def mutate_session_def k assms(7,9) p
          AList.map_of_map_entry)
  with origin ne sp neq np show ?thesis by blast
qed

theorem sandbox_rotate_witness:
  "IS_SANDBOX sandbox_config \<and> reachable sandbox_config example_uuid with_key
   \<and> getDemoSession (bearer_request ''00000000-0000-4000-8000-000000000000'') with_key
       = Some \<lparr> token = ''00000000-0000-4000-8000-000000000000'',
                session_email = VString ''demo@x.io'',
                apiKey = Some ''pk_demo_11111111111141118111111111111111'',
                checkouts = [], webhooks = [], createdAt = ''2026-01-01T00:00:00.000Z'' \<rparr>
   \<and> uuid_calls with_key = 2
   \<and> example_uuid 0 \<noteq> example_uuid 2 \<and> example_uuid 1 \<noteq> example_uuid 2
   \<and> get_prop (sent (reply (post_api_keys_rotate sandbox_config
          (example_runtime (legacy_backend JNull))
          (bearer_request ''00000000-0000-4000-8000-000000000000'') with_key))) ''key''
       = Some (JString ''pk_demo_22222222222242228222222222222222'')
   \<and> ''pk_demo_22222222222242228222222222222222'' \<noteq> ''pk_demo_11111111111141118111111111111111''
   \<and> get_prop (sent (reply (post_api_keys_rotate sandbox_config
          (example_runtime (legacy_backend JNull))
          (bearer_request ''00000000-0000-4000-8000-000000000000'') with_key))) ''old_key''
       = Some (JString ''pk_demo_1111111...'')
   \<and> strict_prefix ''pk_demo_1111111'' ''pk_demo_11111111111141118111111111111111''"
proof -
  let ?rt = "example_runtime (legacy_backend JNull)"
  let ?req = "bearer_request ''00000000-0000-4000-8000-000000000000''"
  let ?s = "\<lparr> token = ''00000000-0000-4000-8000-000000000000'',
                session_email = VString ''demo@x.io'',
                apiKey = Some ''pk_demo_11111111111141118111111111111111'',
                checkouts = [], webhooks = [], createdAt = ''2026-01-01T00:00:00.000Z'' \<rparr>"
  have s: "IS_SANDBOX sandbox_config" by (simp add: sandbox_config_def)
  have u: "uuid ?rt = example_uuid" by (simp add: example_runtime_def)
  have sh: "\<forall>i \<le> uuid_calls with_key. is_uuid (example_uuid i)"
    by (simp add: example_uuid_shape)
  have d: "\<forall>i < uuid_calls with_key. example_uuid i \<noteq> example_uuid (uuid_calls with_key)"
    by (simp add: with_key_eval example_uuid_def)
  have b: "extractBearer ?req = Some ''00000000-0000-4000-8000-000000000000''"
    by (simp add: bearer_request_def extractBearer_def)
  have g: "getDemoSession ?req with_key = Some ?s"
    by (simp add: getDemoSession_def b with_key_eval)
  have k: "apiKey ?s = Some ''pk_demo_11111111111141118111111111111111''" by simp
  have n: "''pk_demo_'' @ strip_dashes (example_uuid (uuid_calls with_key))
             = ''pk_demo_22222222222242228222222222222222''"
    by (simp add: with_key_eval example_uuid_def strip_dashes_def)
  note r = sandbox_rotate [OF s reachable_with_key u sh b g k refl refl, unfolded n]
  from r d have
    "get_prop (sent (reply (post_api_keys_rotate sandbox_config ?rt ?req with_key))) ''key''
       = Some (JString ''pk_demo_22222222222242228222222222222222'')"
    "''pk_demo_22222222222242228222222222222222'' \<noteq> ''pk_demo_11111111111141118111111111111111''"
    "get_prop (sent (reply (post_api_keys_rotate sandbox_config ?rt ?req with_key))) ''old_key''
       = Some (JString ''pk_demo_1111111...'')"
    "strict_prefix ''pk_demo_1111111'' ''pk_demo_11111111111141118111111111111111''"
    by simp_all
  moreover have "uuid_calls with_key = 2"
    and "example_uuid 0 \<noteq> example_uuid 2" and "example_uuid 1 \<noteq> example_uuid 2"
    by (simp_all add: with_key_eval example_uuid_def)
  ultimately show ?thesis using s reachable_with_key g by simp
qed

text \<open>
  Claim C5 as stated fails. After a login and a key issuance, rotation answers with an
  \<open>old_key\<close> that is not a strict prefix of the key the session held. And with a
  \<open>randomUUID()\<close> that returns the same well-formed value again, the key that rotation
  stores and returns is the key the session held before.
\<close>

theorem rotate_old_key_no_prefix_and_key_repeated:
  "map_option apiKey
      (getDemoSession (bearer_request ''00000000-0000-4000-8000-000000000000'') with_key)
     = Some (Some ''pk_demo_11111111111141118111111111111111'')
   \<and> get_prop (sent (reply (post_api_keys_rotate sandbox_config
          (example_runtime (legacy_backend JNull))
          (bearer_request ''00000000-0000-4000-8000-000000000000'') with_key))) ''old_key''
       = Some (JString ''pk_demo_1111111...'')
   \<and> \<not> strict_prefix ''pk_demo_1111111...'' ''pk_demo_11111111111141118111111111111111''
   \<and> reachable sandbox_config repeating_uuid repeated_key
   \<and> is_uuid (repeating_uuid 0) \<and> is_uuid (repeating_uuid 1) \<and> is_uuid (repeating_uuid 2)
   \<and> map_option apiKey
        (getDemoSession (bearer_request ''00000000-0000-4000-8000-000000000000'') repeated_key)
       = Some (Some ''pk_demo_00000000000040008000000000000000'')
   \<and> get_prop (sent (reply (post_api_keys_rotate sandbox_config repeating_runtime
          (bearer_request ''00000000-0000-4000-8000-000000000000'') repeated_key))) ''key''
       = Some (JString ''pk_demo_00000000000040008000000000000000'')
   \<and> map_option apiKey
        (map_of (demoSessions (final (post_api_keys_rotate sandbox_config repeating_runtime
            (bearer_request ''00000000-0000-4000-8000-000000000000'') repeated_key)))
           ''00000000-0000-4000-8000-000000000000'')
       = Some (Some ''pk_demo_00000000000040008000000000000000'')"
proof -
  have a: "map_option apiKey
      (getDemoSession (bearer_request ''00000000-0000-4000-8000-000000000000'') with_key)
     = Some (Some ''pk_demo_11111111111141118111111111111111'')
   \<and> get_prop (sent (reply (post_api_keys_rotate sandbox_config
          (example_runtime (legacy_backend JNull))
          (bearer_request ''00000000-0000-4000-8000-000000000000'') with_key))) ''old_key''
       = Some (JString ''pk_demo_1111111...'')
   \<and> \<not> strict_prefix ''pk_demo_1111111...'' ''pk_demo_11111111111141118111111111111111''"
    by (simp add: with_key_eval post_api_keys_rotate_def sandbox_config_def example_runtime_def
          bearer_request_def requireDemoSession_def getDemoSession_def extractBearer_def
          preview_def Let_def)
  have b: "map_option apiKey
        (getDemoSession (bearer_request ''00000000-0000-4000-8000-000000000000'') repeated_key)
       = Some (Some ''pk_demo_00000000000040008000000000000000'')
   \<and> get_prop (sent (reply (post_api_keys_rotate sandbox_config repeating_runtime
          (bearer_request ''00000000-0000-4000-8000-000000000000'') repeated_key))) ''key''
       = Some (JString ''pk_demo_00000000000040008000000000000000'')
   \<and> map_option apiKey
        (map_of (demoSessions (final (post_api_keys_rotate sandbox_config repeating_runtime
            (bearer_request ''00000000-0000-4000-8000-000000000000'') repeated_key)))
           ''00000000-0000-4000-8000-000000000000'')
       = Some (Some ''pk_demo_00000000000040008000000000000000'')"
    by (simp add: repeated_key_eval post_api_keys_rotate_def sandbox_config_def
          repeating_runtime_def example_runtime_def repeating_uuid_def
          bearer_request_def requireDemoSession_def getDemoSession_def extractBearer_def
          mutate_session_def session_key_def strip_dashes_def Let_def)
  from a b reachable_repeated_key repeating_uuid_shape show ?thesis by blast
qed

subsection \<open>Routes and modes\<close>

text \<open>
  Claim C6. In production mode POST /auth/login, GET /session and GET /sessions answer 404
  with an error and leave the state as it is, for every request. In sandbox mode POST
  /auth/forward with a token (a non-empty \<open>jwt\<close> in the body, or none there and a
  non-empty bearer token) answers 200 with the message that points to POST /auth/login;
  and whatever the request, its status is below 500.
\<close>

theorem mode_gates_routes:
  "(\<not> IS_SANDBOX cfg \<and> r \<in> {POST_auth_login, GET_session, GET_sessions}
      \<longrightarrow> (\<exists>out. handle cfg rt r req st = Inr out
            \<and> status (reply out) = 404
            \<and> get_prop (sent (reply out)) ''error'' \<noteq> None
            \<and> final out = st
            \<and> calls out = []))
   \<and> (IS_SANDBOX cfg \<and> forward_token req = Some tok \<and> tok \<noteq> []
      \<longrightarrow> status (reply (post_auth_forward cfg rt req st)) = 200
          \<and> get_prop (sent (reply (post_auth_forward cfg rt req st))) ''ok'' = Some (JBool True)
          \<and> get_prop (sent (reply (post_auth_forward cfg rt req st))) ''message''
              = Some (JString
                  ''JWT stored in legacy state. For the full demo flow, use POST /auth/login.'')
          \<and> calls (post_auth_forward cfg rt req st) = [])
   \<and> (IS_SANDBOX cfg \<longrightarrow> status (reply (post_auth_forward cfg rt req st)) < 500)"
  by (auto simp: post_auth_login_def get_session_def get_sessions_def post_auth_forward_def
           Let_def split: option.splits)

theorem mode_gates_routes_witness:
  "\<not> IS_SANDBOX production_config
   \<and> (\<exists>out. handle production_config (example_runtime (legacy_backend JNull))
               POST_auth_login (login_request ''demo@x.io'') holding_key = Inr out
          \<and> status (reply out) = 404 \<and> final out = holding_key)
   \<and> (\<exists>out. handle production_config (example_runtime (legacy_backend JNull))
               GET_sessions blank_request holding_key = Inr out
          \<and> status (reply out) = 404 \<and> final out = holding_key)
   \<and> IS_SANDBOX sandbox_config
   \<and> forward_token (forward_request ''eyJhbGciOi'') = Some ''eyJhbGciOi''
   \<and> status (reply (post_auth_forward sandbox_config (example_runtime (legacy_backend JNull))
                      (forward_request ''eyJhbGciOi'') logged_in)) = 200
   \<and> get_prop (sent (reply (post_auth_forward sandbox_config
          (example_runtime (legacy_backend JNull)) (forward_request ''eyJhbGciOi'') logged_in)))
          ''message''
       = Some (JString ''JWT stored in legacy state. For the full demo flow, use POST /auth/login.'')"
proof -
  let ?rt = "example_runtime (legacy_backend JNull)"
  have p: "\<not> IS_SANDBOX production_config" by (simp add: production_config_def)
  have s: "IS_SANDBOX sandbox_config" by (simp add: sandbox_config_def)
  have f: "forward_token (forward_request ''eyJhbGciOi'') = Some ''eyJhbGciOi''"
    by (simp add: forward_token_def forward_request_def empty_body_def)
  from mode_gates_routes [where cfg = production_config and r = POST_auth_login and rt = ?rt
         and req = "login_request ''demo@x.io''" and st = holding_key]
       mode_gates_routes [where cfg = production_config and r = GET_sessions and rt = ?rt
         and req = blank_request and st = holding_key]
       mode_gates_routes [where cfg = sandbox_config and rt = ?rt
         and req = "forward_request ''eyJhbGciOi''" and st = logged_in
         and tok = "''eyJhbGciOi''"]
       p s f
  show ?thesis by simp
qed

subsection \<open>Key rotation in production mode\<close>




subsection \<open>Checkout in sandbox mode\<close>

text \<open>
  Claim C8, as the code has it. In sandbox mode, for a request to POST /checkout/demo whose
  bearer token resolves to a session: the amount is the one of the body, 4900 when the
  body has none or \<open>null\<close>; the currency is the one of the body, \<open>usd\<close> when the body has
  none or \<open>null\<close>. When the currency is a string, the response is 200 and carries the
  amount as \<open>JSON.stringify\<close> writes it (a finite number as it is, an infinite one, which
  is what \<open>1e400\<close> is parsed to, as \<open>null\<close>), the currency in lower case (for a string of
  ASCII characters, \<open>A\<close> to \<open>Z\<close> replaced by \<open>a\<close> to \<open>z\<close>), the status \<open>pending\<close> and an id
  made of \<open>cs_demo_\<close> and the 32 hexadecimal digits of the UUID drawn; one checkout
  record with that id, amount, currency and status is appended to the session's
  checkouts; the session is otherwise as it was, and so are all other sessions, the
  order of the registry and \<open>prodState\<close>. When the currency is any other value (a number,
  a boolean, an array, an object), the handler raises a \<open>TypeError\<close> and sends no
  response.
\<close>

theorem sandbox_checkout:
  assumes "IS_SANDBOX cfg"
    and "extractBearer req = Some t"
    and "getDemoSession req st = Some session"
    and "is_uuid (uuid rt (uuid_calls st))"
    and "amt = coalesce (amount (body req)) (VNumber (Finite 4900))"
    and "cur = coalesce (currency (body req)) (VString ''usd'')"
    and "hex = strip_dashes (uuid rt (uuid_calls st))"
  shows "(\<forall>c. cur = VString c \<longrightarrow>
            (\<exists>out. post_checkout_demo cfg rt req st = Inr out
               \<and> status (reply out) = 200
               \<and> get_prop (sent (reply out)) ''amount'' = Some (stringify amt)
               \<and> get_prop (sent (reply out)) ''currency''
                   = Some (JString (toLowerCase (unicode_lower rt) c))
               \<and> get_prop (sent (reply out)) ''status'' = Some (JString ''pending'')
               \<and> get_prop (sent (reply out)) ''id'' = Some (JString (''cs_demo_'' @ hex))
               \<and> list_all is_hex_digit hex \<and> length hex = 32
               \<and> map_of (demoSessions (final out)) t
                   = Some (session\<lparr> checkouts := checkouts session @
                              [\<lparr> checkout_id = ''cs_demo_'' @ hex, checkout_amount = amt,
                                 checkout_currency = toLowerCase (unicode_lower rt) c,
                                 checkout_status = ''pending'',
                                 checkout_createdAt = now rt \<rparr>] \<rparr>)
               \<and> (\<forall>t'. t' \<noteq> t \<longrightarrow>
                     map_of (demoSessions (final out)) t' = map_of (demoSessions st) t')
               \<and> map fst (demoSessions (final out)) = map fst (demoSessions st)
               \<and> prodState (final out) = prodState st
               \<and> calls out = []))
       \<and> ((\<forall>c. cur \<noteq> VString c) \<longrightarrow> post_checkout_demo cfg rt req st = Inl TypeError)
       \<and> (amount (body req) = None \<or> amount (body req) = Some VNull
            \<longrightarrow> amt = VNumber (Finite 4900))
       \<and> (\<forall>a. amount (body req) = Some a \<and> a \<noteq> VNull \<longrightarrow> amt = a)
       \<and> (\<forall>r. amt = VNumber (Finite r) \<longrightarrow> stringify amt = JNumber r)
       \<and> (amt = VNumber PosInfinity \<or> amt = VNumber NegInfinity \<longrightarrow> stringify amt = JNull)
       \<and> (currency (body req) = None \<or> currency (body req) = Some VNull
            \<longrightarrow> cur = VString ''usd'' \<and> toLowerCase (unicode_lower rt) ''usd'' = ''usd'')
       \<and> (\<forall>a. currency (body req) = Some a \<and> a \<noteq> VNull \<longrightarrow> cur = a)
       \<and> (\<forall>c. list_all is_ascii c \<longrightarrow> toLowerCase (unicode_lower rt) c = map ascii_lower c)"
proof -
  from assms(2,3) have m: "map_of (demoSessions st) t = Some session"
    by (auto dest: getDemoSession_Some)
  have k: "session_key req = t" using assms(2) by (simp add: session_key_def)
  have r: "requireDemoSession req st = Inr session"
    using assms(3) by (simp add: requireDemoSession_def)
  have f: "map fst (AList.map_entry t g al) = map fst al" for g and al :: "(string \<times> DemoSession) list"
    by (induction al) auto
  have ok: "\<exists>out. post_checkout_demo cfg rt req st = Inr out
               \<and> status (reply out) = 200
               \<and> get_prop (sent (reply out)) ''amount'' = Some (stringify amt)
               \<and> get_prop (sent (reply out)) ''currency''
                   = Some (JString (toLowerCase (unicode_lower rt) c))
               \<and> get_prop (sent (reply out)) ''status'' = Some (JString ''pending'')
               \<and> get_prop (sent (reply out)) ''id'' = Some (JString (''cs_demo_'' @ hex))
               \<and> list_all is_hex_digit hex \<and> length hex = 32
               \<and> map_of (demoSessions (final out)) t
                   = Some (session\<lparr> checkouts := checkouts session @
                              [\<lparr> checkout_id = ''cs_demo_'' @ hex, checkout_amount = amt,
                                 checkout_currency = toLowerCase (unicode_lower rt) c,
                                 checkout_status = ''pending'',
                                 checkout_createdAt = now rt \<rparr>] \<rparr>)
               \<and> (\<forall>t'. t' \<noteq> t \<longrightarrow>
                     map_of (demoSessions (final out)) t' = map_of (demoSessions st) t')
               \<and> map fst (demoSessions (final out)) = map fst (demoSessions st)
               \<and> prodState (final out) = prodState st
               \<and> calls out = []"
    if c: "cur = VString c" for c
  proof -
    have l: "call_toLowerCase (unicode_lower rt)
               (coalesce (currency (body req)) (VString ''usd''))
             = Inr (toLowerCase (unicode_lower rt) c)"
      using c unfolding assms(6) by (simp add: call_toLowerCase_def)
    show ?thesis
      using assms(1) r m uuid_stripped [OF assms(4)]
      by (simp add: post_checkout_demo_def Let_def l assms(5,7) mutate_session_def k
            AList.map_of_map_entry f)
  qed
  have ko: "post_checkout_demo cfg rt req st = Inl TypeError" if n: "\<forall>c. cur \<noteq> VString c"
  proof -
    have "call_toLowerCase (unicode_lower rt)
            (coalesce (currency (body req)) (VString ''usd'')) = Inl TypeError"
      using n unfolding assms(6) call_toLowerCase_def
      by (cases "coalesce (currency (body req)) (VString ''usd'')") simp_all
    with assms(1) r show ?thesis by (simp add: post_checkout_demo_def Let_def)
  qed
  have a1: "amount (body req) = None \<or> amount (body req) = Some VNull
            \<longrightarrow> amt = VNumber (Finite 4900)"
    and a2: "\<forall>a. amount (body req) = Some a \<and> a \<noteq> VNull \<longrightarrow> amt = a"
    unfolding assms(5) by (auto simp: coalesce_def)
  have a3: "\<forall>r. amt = VNumber (Finite r) \<longrightarrow> stringify amt = JNumber r"
    and a4: "amt = VNumber PosInfinity \<or> amt = VNumber NegInfinity \<longrightarrow> stringify amt = JNull"
    by auto
  have c1: "currency (body req) = None \<or> currency (body req) = Some VNull
            \<longrightarrow> cur = VString ''usd'' \<and> toLowerCase (unicode_lower rt) ''usd'' = ''usd''"
    and c2: "\<forall>a. currency (body req) = Some a \<and> a \<noteq> VNull \<longrightarrow> cur = a"
    unfolding assms(6) by (auto simp: coalesce_def lower_usd)
  have c3: "\<forall>c. list_all is_ascii c \<longrightarrow> toLowerCase (unicode_lower rt) c = map ascii_lower c"
    by (simp add: lower_ascii)
  from ok ko a1 a2 a3 a4 c1 c2 c3 show ?thesis by (intro conjI allI impI) blast+
qed

theorem sandbox_checkout_witness:
  "IS_SANDBOX sandbox_config
   \<and> is_uuid (uuid (example_runtime (legacy_backend JNull)) (uuid_calls with_key))
   \<and> (\<exists>out. post_checkout_demo sandbox_config (example_runtime (legacy_backend JNull))
               checkout_request with_key = Inr out
        \<and> status (reply out) = 200
        \<and> get_prop (sent (reply out)) ''amount'' = Some (JNumber 1250)
        \<and> get_prop (sent (reply out)) ''currency'' = Some (JString ''eur'')
        \<and> get_prop (sent (reply out)) ''id''
            = Some (JString ''cs_demo_22222222222242228222222222222222'')
        \<and> map_option checkouts
            (map_of (demoSessions (final out)) ''00000000-0000-4000-8000-000000000000'')
           = Some [\<lparr> checkout_id = ''cs_demo_22222222222242228222222222222222'',
                      checkout_amount = VNumber (Finite 1250), checkout_currency = ''eur'',
                      checkout_status = ''pending'',
                      checkout_createdAt = ''2026-01-01T00:00:00.000Z'' \<rparr>])
   \<and> (\<exists>out. post_checkout_demo sandbox_config (example_runtime (legacy_backend JNull))
               (bearer_request ''00000000-0000-4000-8000-000000000000'') with_key = Inr out
        \<and> get_prop (sent (reply out)) ''amount'' = Some (JNumber 4900)
        \<and> get_prop (sent (reply out)) ''currency'' = Some (JString ''usd''))
   \<and> post_checkout_demo sandbox_config (example_runtime (legacy_backend JNull))
        (checkout_request\<lparr> body := (body checkout_request)\<lparr> currency := Some (VBool True) \<rparr> \<rparr>)
        with_key = Inl TypeError"
proof -
  let ?rt = "example_runtime (legacy_backend JNull)"
  let ?tok = "''00000000-0000-4000-8000-000000000000''"
  let ?bad = "checkout_request\<lparr> body := (body checkout_request)\<lparr> currency := Some (VBool True) \<rparr> \<rparr>"
  let ?s = "\<lparr> token = ''00000000-0000-4000-8000-000000000000'',
                session_email = VString ''demo@x.io'',
                apiKey = Some ''pk_demo_11111111111141118111111111111111'',
                checkouts = [], webhooks = [], createdAt = ''2026-01-01T00:00:00.000Z'' \<rparr>"
  have s: "IS_SANDBOX sandbox_config" by (simp add: sandbox_config_def)
  have b1: "extractBearer checkout_request = Some ?tok"
    and b2: "extractBearer (bearer_request ?tok) = Some ?tok"
    and b3: "extractBearer ?bad = Some ?tok"
    by (simp_all add: checkout_request_def bearer_request_def extractBearer_def)
  have g1: "getDemoSession checkout_request with_key = Some ?s"
    and g2: "getDemoSession (bearer_request ?tok) with_key = Some ?s"
    and g3: "getDemoSession ?bad with_key = Some ?s"
    by (simp_all add: getDemoSession_def b1 b2 b3 with_key_eval)
  have u: "is_uuid (uuid ?rt (uuid_calls with_key))"
    by (simp add: example_runtime_def example_uuid_shape)
  have h: "strip_dashes (uuid ?rt (uuid_calls with_key)) = ''22222222222242228222222222222222''"
    by (simp add: example_runtime_def with_key_eval example_uuid_def strip_dashes_def)
  have a1: "coalesce (amount (body checkout_request)) (VNumber (Finite 4900))
              = VNumber (Finite 1250)"
    and a2: "coalesce (amount (body (bearer_request ?tok))) (VNumber (Finite 4900))
              = VNumber (Finite 4900)"
    by (simp_all add: checkout_request_def bearer_request_def empty_body_def coalesce_def)
  have c1: "coalesce (currency (body checkout_request)) (VString ''usd'') = VString ''EUR''"
    and c2: "coalesce (currency (body (bearer_request ?tok))) (VString ''usd'') = VString ''usd''"
    and c3: "coalesce (currency (body ?bad)) (VString ''usd'') = VBool True"
    by (simp_all add: checkout_request_def bearer_request_def empty_body_def coalesce_def)
  have l1: "toLowerCase (unicode_lower ?rt) ''EUR'' = ''eur''"
    by code_simp
  have l2: "toLowerCase (unicode_lower ?rt) ''usd'' = ''usd''"
    by (rule lower_usd)
  have n: "now ?rt = ''2026-01-01T00:00:00.000Z''" by (simp add: example_runtime_def)
  note t1 = sandbox_checkout [OF s b1 g1 u refl refl refl, unfolded a1 c1 h n]
  note t2 = sandbox_checkout [OF s b2 g2 u refl refl refl, unfolded a2 c2 h n]
  note t3 = sandbox_checkout [OF s b3 g3 u refl refl refl, unfolded c3]
  from t1 have "\<exists>out. post_checkout_demo sandbox_config ?rt checkout_request with_key = Inr out
        \<and> status (reply out) = 200
        \<and> get_prop (sent (reply out)) ''amount'' = Some (stringify (VNumber (Finite 1250)))
        \<and> get_prop (sent (reply out)) ''currency''
            = Some (JString (toLowerCase (unicode_lower ?rt) ''EUR''))
        \<and> get_prop (sent (reply out)) ''id''
            = Some (JString (''cs_demo_'' @ ''22222222222242228222222222222222''))
        \<and> map_of (demoSessions (final out)) ?tok
            = Some (?s\<lparr> checkouts := checkouts ?s @
                      [\<lparr> checkout_id = ''cs_demo_'' @ ''22222222222242228222222222222222'',
                         checkout_amount = VNumber (Finite 1250),
                         checkout_currency = toLowerCase (unicode_lower ?rt) ''EUR'',
                         checkout_status = ''pending'',
                         checkout_createdAt = ''2026-01-01T00:00:00.000Z'' \<rparr>] \<rparr>)"
    by blast
  then have w1: "\<exists>out. post_checkout_demo sandbox_config ?rt checkout_request with_key = Inr out
        \<and> status (reply out) = 200
        \<and> get_prop (sent (reply out)) ''amount'' = Some (JNumber 1250)
        \<and> get_prop (sent (reply out)) ''currency'' = Some (JString ''eur'')
        \<and> get_prop (sent (reply out)) ''id''
            = Some (JString ''cs_demo_22222222222242228222222222222222'')
        \<and> map_option checkouts (map_of (demoSessions (final out)) ?tok)
           = Some [\<lparr> checkout_id = ''cs_demo_22222222222242228222222222222222'',
                      checkout_amount = VNumber (Finite 1250), checkout_currency = ''eur'',
                      checkout_status = ''pending'',
                      checkout_createdAt = ''2026-01-01T00:00:00.000Z'' \<rparr>]"
    unfolding l1 by auto
  from t2 have "\<exists>out. post_checkout_demo sandbox_config ?rt (bearer_request ?tok) with_key = Inr out
        \<and> get_prop (sent (reply out)) ''amount'' = Some (stringify (VNumber (Finite 4900)))
        \<and> get_prop (sent (reply out)) ''currency''
            = Some (JString (toLowerCase (unicode_lower ?rt) ''usd''))"
    by blast
  then have w2: "\<exists>out. post_checkout_demo sandbox_config ?rt (bearer_request ?tok) with_key = Inr out
        \<and> get_prop (sent (reply out)) ''amount'' = Some (JNumber 4900)
        \<and> get_prop (sent (reply out)) ''currency'' = Some (JString ''usd'')"
    unfolding l2 by auto
  from t3 have w3: "post_checkout_demo sandbox_config ?rt ?bad with_key = Inl TypeError"
    by blast
  from s u w1 w2 w3 show ?thesis by blast
qed

text \<open>
  Claim C8 as stated fails, in two places. For the body \<open>{"amount": 1e400}\<close>, whose amount
  is parsed to the infinite double, the response carries the amount \<open>null\<close>. And for a
  body whose currency is the number 5, with a bearer token that resolves to a session,
  the handler raises a \<open>TypeError\<close>: there is no response and no checkout record.
\<close>

theorem checkout_amount_null_or_no_response:
  "getDemoSession infinite_amount_request with_key \<noteq> None
   \<and> amount (body infinite_amount_request) = Some (VNumber PosInfinity)
   \<and> map_sum id (\<lambda>out. (status (reply out), get_prop (sent (reply out)) ''amount''))
        (post_checkout_demo sandbox_config (example_runtime (legacy_backend JNull))
           infinite_amount_request with_key)
       = Inr (200, Some JNull)
   \<and> getDemoSession numeric_currency_request with_key \<noteq> None
   \<and> currency (body numeric_currency_request) = Some (VNumber (Finite 5))
   \<and> post_checkout_demo sandbox_config (example_runtime (legacy_backend JNull))
        numeric_currency_request with_key = Inl TypeError"
  by (simp add: post_checkout_demo_def sandbox_config_def example_runtime_def
        infinite_amount_request_def numeric_currency_request_def checkout_request_def
        empty_body_def with_key_eval requireDemoSession_def getDemoSession_def
        extractBearer_def coalesce_def call_toLowerCase_def toLowerCase_def is_ascii_def
        ascii_lower_def Let_def)

subsection \<open>Requests without a session in sandbox mode\<close>

text \<open>
  Claim C9. In sandbox mode, each of POST /api-keys/create, POST /api-keys/rotate, POST
  /checkout/demo and POST /webhooks/create, on a request without a bearer token or with
  one under which no session is stored, answers 401 with an \<open>error\<close> and a \<open>hint\<close>, calls
  no backend and leaves the whole state (the registry and both fields of \<open>prodState\<close>)
  as it was.
\<close>

theorem sandbox_unauthorized:
  assumes "IS_SANDBOX cfg"
    and "extractBearer req = None
         \<or> (\<exists>t. extractBearer req = Some t \<and> map_of (demoSessions st) t = None)"
    and "r \<in> {POST_api_keys_create, POST_api_keys_rotate, POST_checkout_demo,
               POST_webhooks_create}"
  shows "\<exists>out. handle cfg rt r req st = Inr out
       \<and> status (reply out) = 401
       \<and> get_prop (sent (reply out)) ''error'' \<noteq> None
       \<and> get_prop (sent (reply out)) ''hint'' \<noteq> None
       \<and> final out = st
       \<and> calls out = []"
proof -
  from assms(2) have "getDemoSession req st = None" by (rule getDemoSession_None)
  then have u: "\<exists>resp. requireDemoSession req st = Inl resp \<and> status resp = 401
      \<and> get_prop (sent resp) ''error'' \<noteq> None \<and> get_prop (sent resp) ''hint'' \<noteq> None"
    by (simp add: requireDemoSession_def)
  from assms(3) consider "r = POST_api_keys_create" | "r = POST_api_keys_rotate"
    | "r = POST_checkout_demo" | "r = POST_webhooks_create" by blast
  then show ?thesis
  proof cases
    case 1
    with u assms(1) show ?thesis by (auto simp: post_api_keys_create_def)
  next
    case 2
    with u assms(1) show ?thesis by (auto simp: post_api_keys_rotate_def)
  next
    case 3
    with u assms(1) show ?thesis by (auto simp: post_checkout_demo_def)
  next
    case 4
    with u assms(1) show ?thesis by (auto simp: post_webhooks_create_def Let_def)
  qed
qed

theorem sandbox_unauthorized_witness:
  "IS_SANDBOX sandbox_config \<and> extractBearer blank_request = None
   \<and> (\<exists>out. handle sandbox_config (example_runtime (legacy_backend JNull))
               POST_webhooks_create blank_request logged_in = Inr out
          \<and> status (reply out) = 401 \<and> final out = logged_in)
   \<and> map_of (demoSessions logged_in) ''no-such-token'' = None
   \<and> (\<exists>out. handle sandbox_config (example_runtime (legacy_backend JNull))
               POST_api_keys_rotate (bearer_request ''no-such-token'') logged_in = Inr out
          \<and> status (reply out) = 401 \<and> final out = logged_in)
   \<and> extractBearer numeric_currency_request = Some ''00000000-0000-4000-8000-000000000000''
   \<and> map_of (demoSessions initial_state) ''00000000-0000-4000-8000-000000000000'' = None
   \<and> (\<exists>out. handle sandbox_config (example_runtime (legacy_backend JNull))
               POST_checkout_demo numeric_currency_request initial_state = Inr out
          \<and> status (reply out) = 401 \<and> final out = initial_state)"
proof -
  let ?rt = "example_runtime (legacy_backend JNull)"
  have s: "IS_SANDBOX sandbox_config" by (simp add: sandbox_config_def)
  have n: "extractBearer blank_request = None"
    by (simp add: blank_request_def extractBearer_def)
  have m: "map_of (demoSessions logged_in) ''no-such-token'' = None"
    by (simp add: logged_in_eval)
  have b: "extractBearer (bearer_request ''no-such-token'') = Some ''no-such-token''"
    by (simp add: bearer_request_def extractBearer_def)
  have c: "extractBearer numeric_currency_request = Some ''00000000-0000-4000-8000-000000000000''"
    by (simp add: numeric_currency_request_def checkout_request_def extractBearer_def)
  have i: "map_of (demoSessions initial_state) ''00000000-0000-4000-8000-000000000000'' = None"
    by (simp add: initial_state_def)
  have h1: "extractBearer blank_request = None
      \<or> (\<exists>t. extractBearer blank_request = Some t \<and> map_of (demoSessions logged_in) t = None)"
    using n by simp
  have h2: "extractBearer (bearer_request ''no-such-token'') = None
      \<or> (\<exists>t. extractBearer (bearer_request ''no-such-token'') = Some t
              \<and> map_of (demoSessions logged_in) t = None)"
    using b m by simp
  have h3: "extractBearer numeric_currency_request = None
      \<or> (\<exists>t. extractBearer numeric_currency_request = Some t
              \<and> map_of (demoSessions initial_state) t = None)"
    using c i by simp
  have r1: "POST_webhooks_create \<in> {POST_api_keys_create, POST_api_keys_rotate,
              POST_checkout_demo, POST_webhooks_create}" by simp
  have r2: "POST_api_keys_rotate \<in> {POST_api_keys_create, POST_api_keys_rotate,
              POST_checkout_demo, POST_webhooks_create}" by simp
  have r3: "POST_checkout_demo \<in> {POST_api_keys_create, POST_api_keys_rotate,
              POST_checkout_demo, POST_webhooks_create}" by simp
  have w1: "\<exists>out. handle sandbox_config ?rt POST_webhooks_create blank_request logged_in = Inr out
          \<and> status (reply out) = 401 \<and> final out = logged_in"
    using sandbox_unauthorized [OF s h1 r1, of ?rt] by blast
  have w2: "\<exists>out. handle sandbox_config ?rt POST_api_keys_rotate
               (bearer_request ''no-such-token'') logged_in = Inr out
          \<and> status (reply out) = 401 \<and> final out = logged_in"
    using sandbox_unauthorized [OF s h2 r2, of ?rt] by blast
  have w3: "\<exists>out. handle sandbox_config ?rt POST_checkout_demo
               numeric_currency_request initial_state = Inr out
          \<and> status (reply out) = 401 \<and> final out = initial_state"
    using sandbox_unauthorized [OF s h3 r3, of ?rt] by blast
  from s n w1 m w2 c i w3 show ?thesis by blast
qed

subsection \<open>Forwarding a token in sandbox mode\<close>

text \<open>
  Claim C10. In sandbox mode POST /auth/forward with a token stores that token in the
  \<open>jwt\<close> field of \<open>prodState\<close>; the session registry and the \<open>apiKey\<close> field are left as
  they were.
\<close>

theorem sandbox_forward_stores_jwt:
  assumes "IS_SANDBOX cfg" and "forward_token req = Some tok" and "tok \<noteq> []"
  shows "status (reply (post_auth_forward cfg rt req st)) = 200
       \<and> prod_jwt (prodState (final (post_auth_forward cfg rt req st))) = JString tok
       \<and> demoSessions (final (post_auth_forward cfg rt req st)) = demoSessions st
       \<and> prod_apiKey (prodState (final (post_auth_forward cfg rt req st)))
           = prod_apiKey (prodState st)"
  using assms by (simp add: post_auth_forward_def)

theorem sandbox_forward_stores_jwt_witness:
  "IS_SANDBOX sandbox_config
   \<and> forward_token (forward_request ''eyJhbGciOi'') = Some ''eyJhbGciOi''
   \<and> prod_jwt (prodState logged_in) = JNull
   \<and> prod_jwt (prodState (final (post_auth_forward sandbox_config
         (example_runtime (legacy_backend JNull)) (forward_request ''eyJhbGciOi'') logged_in)))
       = JString ''eyJhbGciOi''
   \<and> demoSessions (final (post_auth_forward sandbox_config
         (example_runtime (legacy_backend JNull)) (forward_request ''eyJhbGciOi'') logged_in))
       = demoSessions logged_in"
proof -
  have s: "IS_SANDBOX sandbox_config" by (simp add: sandbox_config_def)
  have f: "forward_token (forward_request ''eyJhbGciOi'') = Some ''eyJhbGciOi''"
    by (simp add: forward_token_def forward_request_def empty_body_def)
  have n: "''eyJhbGciOi'' \<noteq> []" by simp
  have j: "prod_jwt (prodState logged_in) = JNull" by (simp add: logged_in_eval)
  from sandbox_forward_stores_jwt [OF s f n, of "example_runtime (legacy_backend JNull)" logged_in]
    s f j
  show ?thesis by simp
qed

end
